theory Spec2Isabelle
  imports Main "HOL-Library.Word"
begin

unbundle bit_operations_syntax

section \<open>The persisted region\<close>

text \<open>
  The firmware keeps its credentials in the 512 bytes handed out by \<open>EEPROM.begin(512)\<close>.
  A cell is a \<open>uint8_t\<close>. The library ignores a write outside the allocated size and
  answers 0 to a read outside it; every write sequence of the firmware ends in
  \<open>EEPROM.commit()\<close>, so one store stands for the buffer and the flash sector behind it:
  what an operation wrote is what the next boot reads.
\<close>

type_synonym eeprom = "nat \<Rightarrow> 8 word"

definition EEPROM_SIZE :: nat where
  "EEPROM_SIZE = 512"

definition EEPROM_read :: "eeprom \<Rightarrow> nat \<Rightarrow> 8 word" where
  "EEPROM_read e a = (if a < EEPROM_SIZE then e a else 0)"

definition EEPROM_write :: "nat \<Rightarrow> 8 word \<Rightarrow> eeprom \<Rightarrow> eeprom" where
  "EEPROM_write a v e = (if a < EEPROM_SIZE then e(a := v) else e)"

definition EEPROM_MAGIC :: "32 word" where
  "EEPROM_MAGIC = 0xCD34"

definition default_control_password :: string where
  "default_control_password = ''appliances123''"

text \<open>
  \<open>for (int i = 0; i < 512; i++) EEPROM.write(i, 0);\<close>
\<close>

function zero_loop :: "nat \<Rightarrow> eeprom \<Rightarrow> eeprom" where
  "zero_loop i e = (if i < 512 then zero_loop (Suc i) (EEPROM_write i 0 e) else e)"
  by pat_completeness auto
termination
  by (relation "measure (\<lambda>(i, e). 512 - i)") auto

declare zero_loop.simps [simp del]

text \<open>
  \<open>for (int i = 0; i < s.length(); i++) EEPROM.write(base + i, s[i]);\<close>
  The loop occurs four times in the source, with the bases 1, 101 and 301.
\<close>

function write_loop :: "nat \<Rightarrow> string \<Rightarrow> nat \<Rightarrow> eeprom \<Rightarrow> eeprom" where
  "write_loop base s i e =
     (if i < length s
      then write_loop base s (Suc i) (EEPROM_write (base + i) (of_char (s ! i)) e)
      else e)"
  by pat_completeness auto
termination
  by (relation "measure (\<lambda>(base, s, i, e). length s - i)") auto

declare write_loop.simps [simp del]

text \<open>
  \<open>for (int i = 0; i < n; i++) acc += char(EEPROM.read(base + i));\<close>
\<close>

function read_loop :: "nat \<Rightarrow> nat \<Rightarrow> nat \<Rightarrow> eeprom \<Rightarrow> string \<Rightarrow> string" where
  "read_loop base n i e acc =
     (if i < n
      then read_loop base n (Suc i) e (acc @ [char_of (unat (EEPROM_read e (base + i)))])
      else acc)"
  by pat_completeness auto
termination
  by (relation "measure (\<lambda>(base, n, i, e, acc). n - i)") auto

declare read_loop.simps [simp del]

text \<open>\<open>int magic = (EEPROM.read(200) << 8) | EEPROM.read(201);\<close>\<close>

definition read_magic :: "eeprom \<Rightarrow> 32 word" where
  "read_magic e = push_bit 8 (ucast (EEPROM_read e 200)) OR ucast (EEPROM_read e 201)"


section \<open>The device\<close>

text \<open>
  The output lines \<open>D0 .. D8\<close> are the board's pin constants; the firmware only ever
  uses them as handles for \<open>pinMode\<close>, \<open>digitalWrite\<close> and \<open>digitalRead\<close>.
\<close>

datatype pin = D0 | D1 | D2 | D3 | D4 | D5 | D6 | D7 | D8

definition pinMap :: "(string \<times> pin) list" where
  "pinMap = [(''d0'', D0), (''d1'', D1), (''d2'', D2), (''d3'', D3), (''d4'', D4),
             (''d5'', D5), (''d6'', D6), (''d7'', D7), (''d8'', D8)]"

datatype wifi_mode = WIFI_OFF | WIFI_STA | WIFI_AP

datatype http_body =
    RootPage
  | NetworkList "(string \<times> int \<times> bool) list"
  | SuccessTrue
  | SuccessFalse string

text \<open>
  The global variables of the sketch, the hardware they drive and the record of what the
  device did to the outside world. The environment enters through two oracles:
  \<open>wifi_link k\<close> is whether the \<open>k\<close>-th call of \<open>WiFi.status()\<close> reports
  \<open>WL_CONNECTED\<close>, and \<open>broker_accepts k\<close> is whether the \<open>k\<close>-th call of
  \<open>client.connect\<close> succeeds. \<open>elapsed_ms\<close> sums the arguments of \<open>delay\<close>.
\<close>

record device =
  eeprom :: eeprom
  ssid_stored :: string
  password_stored :: string
  control_password_stored :: string
  configMode :: bool
  gpio :: "pin \<Rightarrow> bool"
  wifi_mode :: wifi_mode
  sta_config :: "(string \<times> string) option"
  soft_ap :: "(string \<times> string) option"
  wifi_link :: "nat \<Rightarrow> bool"
  wifi_polls :: nat
  elapsed_ms :: nat
  mqtt_armed :: bool
  mqtt_session :: bool
  subscribed :: bool
  broker_accepts :: "nat \<Rightarrow> bool"
  mqtt_tries :: nat
  published :: "(string \<times> string) list list"
  server_running :: bool
  responses :: "(nat \<times> http_body) list"
  restarted :: bool

definition delay :: "nat \<Rightarrow> device \<Rightarrow> device" where
  "delay ms st = st\<lparr>elapsed_ms := elapsed_ms st + ms\<rparr>"

definition digitalWrite :: "pin \<Rightarrow> bool \<Rightarrow> device \<Rightarrow> device" where
  "digitalWrite p level st = st\<lparr>gpio := (gpio st)(p := level)\<rparr>"

fun setupPins_loop :: "(string \<times> pin) list \<Rightarrow> device \<Rightarrow> device" where
  "setupPins_loop [] st = st"
| "setupPins_loop ((name, p) # rest) st = setupPins_loop rest (digitalWrite p False st)"

definition setupPins :: "device \<Rightarrow> device" where
  "setupPins st = setupPins_loop pinMap st"

section \<open>Credential store\<close>

definition clearEEPROM :: "device \<Rightarrow> device" where
  "clearEEPROM st =
     st\<lparr>eeprom := zero_loop 0 (eeprom st),
        ssid_stored := [],
        password_stored := [],
        control_password_stored := default_control_password\<rparr>"

definition loadCredentials :: "device \<Rightarrow> device" where
  "loadCredentials st =
     (if read_magic (eeprom st) \<noteq> EEPROM_MAGIC then st
      else
        let ssidLength = unat (EEPROM_read (eeprom st) 0);
            st1 = (if 0 < ssidLength \<and> ssidLength < 100
                   then st\<lparr>ssid_stored := read_loop 1 ssidLength 0 (eeprom st) (ssid_stored st)\<rparr>
                   else st);
            passwordLength = unat (EEPROM_read (eeprom st1) 100)
        in if 0 < passwordLength \<and> passwordLength < 100
           then st1\<lparr>password_stored :=
                      read_loop 101 passwordLength 0 (eeprom st1) (password_stored st1)\<rparr>
           else st1)"

definition saveCredentials :: "string \<Rightarrow> string \<Rightarrow> device \<Rightarrow> device" where
  "saveCredentials ssid password st =
     (let e0 = zero_loop 0 (eeprom st);
          e1 = write_loop 1 ssid 0 (EEPROM_write 0 (of_nat (length ssid)) e0);
          e2 = write_loop 101 password 0 (EEPROM_write 100 (of_nat (length password)) e1);
          e3 = write_loop 301 (control_password_stored st) 0
                 (EEPROM_write 300 (of_nat (length (control_password_stored st))) e2);
          e4 = EEPROM_write 200 (ucast (drop_bit 8 EEPROM_MAGIC AND 0xFF)) e3;
          e5 = EEPROM_write 201 (ucast (EEPROM_MAGIC AND 0xFF)) e4
      in st\<lparr>eeprom := e5\<rparr>)"

definition loadControlPassword :: "device \<Rightarrow> device" where
  "loadControlPassword st =
     (let passwordLength = unat (EEPROM_read (eeprom st) 300)
      in if 0 < passwordLength \<and> passwordLength < 50
         then st\<lparr>control_password_stored := read_loop 301 passwordLength 0 (eeprom st) []\<rparr>
         else st)"

definition saveControlPassword :: "string \<Rightarrow> device \<Rightarrow> device" where
  "saveControlPassword password st =
     st\<lparr>control_password_stored := password,
        eeprom := write_loop 301 password 0
                    (EEPROM_write 300 (of_nat (length password)) (eeprom st))\<rparr>"

definition validateControlPassword :: "string \<Rightarrow> device \<Rightarrow> bool" where
  "validateControlPassword password st \<longleftrightarrow> password = control_password_stored st"


section \<open>Network lifecycle\<close>

text \<open>
  \<open>WiFi.status() == WL_CONNECTED\<close> asks the environment and uses up one poll:
  \<open>WiFi_connected\<close> is the answer to the next poll, \<open>WiFi_polled\<close> the state after it.
\<close>

definition WiFi_connected :: "device \<Rightarrow> bool" where
  "WiFi_connected st = wifi_link st (wifi_polls st)"

definition WiFi_polled :: "device \<Rightarrow> device" where
  "WiFi_polled st = st\<lparr>wifi_polls := Suc (wifi_polls st)\<rparr>"

definition WiFi_begin :: "string \<Rightarrow> string \<Rightarrow> device \<Rightarrow> device" where
  "WiFi_begin ssid password st = st\<lparr>wifi_mode := WIFI_STA, sta_config := Some (ssid, password)\<rparr>"

definition setupWebServer :: "device \<Rightarrow> device" where
  "setupWebServer st = st\<lparr>server_running := True\<rparr>"

definition startConfigMode :: "device \<Rightarrow> device" where
  "startConfigMode st =
     setupWebServer
       (st\<lparr>configMode := True,
           wifi_mode := WIFI_AP,
           soft_ap := Some (''ApplianceControl_Setup'', ''12345678'')\<rparr>)"

text \<open>
  \<open>while (WiFi.status() != WL_CONNECTED && timeout < 40) { delay(500); timeout++; }\<close>
  The status is polled before the counter is looked at.
\<close>

function connectToWiFi_wait :: "nat \<Rightarrow> device \<Rightarrow> device" where
  "connectToWiFi_wait timeout st =
     (if \<not> WiFi_connected st \<and> timeout < 40
      then connectToWiFi_wait (Suc timeout) (delay 500 (WiFi_polled st))
      else WiFi_polled st)"
  by pat_completeness auto
termination
  by (relation "measure (\<lambda>(timeout, st). 40 - timeout)") auto

declare connectToWiFi_wait.simps [simp del]

definition connectToWiFi :: "device \<Rightarrow> device" where
  "connectToWiFi st =
     (let st1 = connectToWiFi_wait 0 (WiFi_begin (ssid_stored st) (password_stored st) st)
      in if WiFi_connected st1
         then (WiFi_polled st1)\<lparr>mqtt_armed := True\<rparr>
         else startConfigMode (WiFi_polled st1))"

section \<open>Provisioning web server\<close>

definition send :: "nat \<Rightarrow> http_body \<Rightarrow> device \<Rightarrow> device" where
  "send code body st = st\<lparr>responses := responses st @ [(code, body)]\<rparr>"

definition ESP_restart :: "device \<Rightarrow> device" where
  "ESP_restart st = st\<lparr>restarted := True\<rparr>"

definition handleRoot :: "device \<Rightarrow> device" where
  "handleRoot st = send 200 RootPage st"

text \<open>The survey \<open>WiFi.scanNetworks()\<close> returns comes with the request.\<close>

definition handleScan :: "(string \<times> int \<times> bool) list \<Rightarrow> device \<Rightarrow> device" where
  "handleScan networks st = send 200 (NetworkList networks) st"

text \<open>
  \<open>while (WiFi.status() != WL_CONNECTED && timeout < 20) { delay(500); timeout++; }\<close>
\<close>

function handleConnect_wait :: "nat \<Rightarrow> device \<Rightarrow> device" where
  "handleConnect_wait timeout st =
     (if \<not> WiFi_connected st \<and> timeout < 20
      then handleConnect_wait (Suc timeout) (delay 500 (WiFi_polled st))
      else WiFi_polled st)"
  by pat_completeness auto
termination
  by (relation "measure (\<lambda>(timeout, st). 20 - timeout)") auto

declare handleConnect_wait.simps [simp del]

definition handleConnect :: "string \<Rightarrow> string \<Rightarrow> device \<Rightarrow> device" where
  "handleConnect ssid password st =
     (let st1 = handleConnect_wait 0 (WiFi_begin ssid password st)
      in if WiFi_connected st1
         then ESP_restart
                (delay 1000 (send 200 SuccessTrue (saveCredentials ssid password (WiFi_polled st1))))
         else send 200 (SuccessFalse ''Connection timeout'') (WiFi_polled st1))"

definition handleClearWiFi :: "device \<Rightarrow> device" where
  "handleClearWiFi st = ESP_restart (delay 1000 (send 200 SuccessTrue (clearEEPROM st)))"

definition handleSetPassword :: "string \<Rightarrow> device \<Rightarrow> device" where
  "handleSetPassword password st = send 200 SuccessTrue (saveControlPassword password st)"


section \<open>Control channel\<close>

text \<open>
  \<open>strcasecmp\<close> of the C library on two NUL-terminated strings: bytes are compared after
  \<open>tolower\<close> (which moves only \<open>A .. Z\<close>), the comparison stops at the first difference
  or at the terminator, and the result is the difference of the two bytes there.
\<close>

definition tolower :: "char \<Rightarrow> char" where
  "tolower c = (if 65 \<le> (of_char c :: nat) \<and> (of_char c :: nat) \<le> 90
                then char_of ((of_char c :: nat) + 32) else c)"

fun strcasecmp :: "string \<Rightarrow> string \<Rightarrow> int" where
  "strcasecmp [] [] = 0"
| "strcasecmp [] (b # bs) = - of_char (tolower b)"
| "strcasecmp (a # as) [] = of_char (tolower a)"
| "strcasecmp (a # as) (b # bs) =
     (if tolower a = tolower b
      then (if a = CHR 0x00 then 0 else strcasecmp as bs)
      else of_char (tolower a) - of_char (tolower b))"

text \<open>
  An inbound message after \<open>deserializeJson\<close>. \<open>cmd_password\<close> is the member
  \<open>"password"\<close> when it is a string (\<open>doc["password"] | ""\<close> reads anything else as the
  empty string); \<open>cmd_pins\<close> lists the members of the object \<open>"pins"\<close> in the order the
  loop \<open>for (JsonPair kv : controls)\<close> visits them, and is empty when there is no such
  object. The value of a member is what \<open>kv.value().as<const char*>()\<close> returns: the
  string for a JSON string, and the null pointer, here \<open>None\<close>, for a value of any other
  JSON type. A payload that does not parse is \<open>None\<close>.
\<close>

record command =
  cmd_password :: "string option"
  cmd_pins :: "(string \<times> string option) list"

definition receivedPassword :: "command \<Rightarrow> string" where
  "receivedPassword c = (case cmd_password c of None \<Rightarrow> [] | Some p \<Rightarrow> p)"

text \<open>\<open>doc[key] = value\<close> on a JSON object: replaces the member or appends it.\<close>

fun doc_set :: "string \<Rightarrow> string \<Rightarrow> (string \<times> string) list \<Rightarrow> (string \<times> string) list" where
  "doc_set k v [] = [(k, v)]"
| "doc_set k v ((k', v') # d) = (if k' = k then (k, v) # d else (k', v') # doc_set k v d)"

fun publish_state_loop ::
  "(string \<times> pin) list \<Rightarrow> (pin \<Rightarrow> bool) \<Rightarrow> (string \<times> string) list \<Rightarrow> (string \<times> string) list" where
  "publish_state_loop [] g doc = doc"
| "publish_state_loop ((name, p) # rest) g doc =
     publish_state_loop rest g (doc_set name (if g p then ''on'' else ''off'') doc)"

definition state_payload :: "device \<Rightarrow> (string \<times> string) list" where
  "state_payload st = publish_state_loop pinMap (gpio st) []"

text \<open>
  \<open>client.publish\<close> hands the message to the broker when the session is up and answers
  \<open>false\<close> otherwise. The message is kept as the JSON object; its text is at most 100
  characters and fits the 256 bytes \<open>serializeJson\<close> is given.
\<close>

definition publish_state :: "device \<Rightarrow> device" where
  "publish_state st =
     (if mqtt_session st then st\<lparr>published := published st @ [state_payload st]\<rparr> else st)"

text \<open>
  \<open>strcasecmp(value, "on")\<close> reads through \<open>value\<close>. With the null pointer the call is
  undefined in C and the sketch goes no further: the result is then \<open>Inl\<close> of the fault
  and of the device as it was at that point, and \<open>Inr\<close> of the device when the function
  returns. \<open>state_of\<close> is the device in either case.
\<close>

datatype fault = NullPointer

definition state_of :: "fault \<times> device + device \<Rightarrow> device" where
  "state_of r = (case r of Inl e \<Rightarrow> snd e | Inr st \<Rightarrow> st)"

text \<open>
  The inner loop of \<open>callback\<close>: the first line of the table whose name matches the label
  is written, and the \<open>break\<close> ends the search. The value is read only once a name has
  matched.
\<close>

fun callback_pin ::
  "(string \<times> pin) list \<Rightarrow> string \<Rightarrow> string option \<Rightarrow> device \<Rightarrow> fault \<times> device + device" where
  "callback_pin [] pinLabel v st = Inr st"
| "callback_pin ((name, p) # rest) pinLabel v st =
     (if strcasecmp name pinLabel = 0
      then (case v of
              None \<Rightarrow> Inl (NullPointer, st)
            | Some val \<Rightarrow>
                if strcasecmp val ''on'' = 0 \<or> strcasecmp val ''high'' = 0
                then Inr (digitalWrite p True st)
                else Inr (digitalWrite p False st))
      else callback_pin rest pinLabel v st)"

fun callback_pins :: "(string \<times> string option) list \<Rightarrow> device \<Rightarrow> fault \<times> device + device" where
  "callback_pins [] st = Inr st"
| "callback_pins ((pinLabel, v) # kvs) st =
     (case callback_pin pinMap pinLabel v st of
        Inl e \<Rightarrow> Inl e
      | Inr st1 \<Rightarrow> callback_pins kvs st1)"

definition callback :: "command option \<Rightarrow> device \<Rightarrow> fault \<times> device + device" where
  "callback msg st =
     (case msg of
        None \<Rightarrow> Inr st
      | Some doc \<Rightarrow>
          if \<not> validateControlPassword (receivedPassword doc) st then Inr st
          else (case callback_pins (cmd_pins doc) st of
                  Inl e \<Rightarrow> Inl e
                | Inr st1 \<Rightarrow> Inr (publish_state st1)))"

text \<open>
  \<open>reconnect\<close>: \<open>client.connected()\<close> is the session flag, which a successful
  \<open>client.connect\<close> raises.
\<close>

definition client_connect :: "device \<Rightarrow> device" where
  "client_connect st =
     st\<lparr>mqtt_session := broker_accepts st (mqtt_tries st), mqtt_tries := Suc (mqtt_tries st)\<rparr>"

function reconnect_loop :: "nat \<Rightarrow> device \<Rightarrow> device" where
  "reconnect_loop attempts st =
     (if \<not> mqtt_session st \<and> attempts < 5
      then (if broker_accepts st (mqtt_tries st)
            then reconnect_loop attempts (publish_state ((client_connect st)\<lparr>subscribed := True\<rparr>))
            else reconnect_loop (Suc attempts) (delay 2000 (client_connect st)))
      else st)"
  by pat_completeness auto
termination
  by (relation "measure (\<lambda>(attempts, st). 2 * (5 - attempts) + (if mqtt_session st then 0 else 1))")
     (auto simp: publish_state_def client_connect_def delay_def)

declare reconnect_loop.simps [simp del]

definition reconnect :: "device \<Rightarrow> device" where
  "reconnect st = reconnect_loop 0 st"

text \<open>
  \<open>client.loop()\<close> hands a waiting message to the callback while the session is up.
\<close>

definition client_loop :: "command option option \<Rightarrow> device \<Rightarrow> fault \<times> device + device" where
  "client_loop inbound st =
     (if mqtt_session st
      then (case inbound of None \<Rightarrow> Inr st | Some msg \<Rightarrow> callback msg st)
      else Inr st)"

section \<open>Boot and supervisor loop\<close>

datatype request =
    GetRoot
  | GetScan "(string \<times> int \<times> bool) list"
  | GetConnect string string
  | GetClear
  | GetSetPassword string

definition handleClient :: "request option \<Rightarrow> device \<Rightarrow> device" where
  "handleClient req st =
     (case req of
        None \<Rightarrow> st
      | Some GetRoot \<Rightarrow> handleRoot st
      | Some (GetScan networks) \<Rightarrow> handleScan networks st
      | Some (GetConnect ssid password) \<Rightarrow> handleConnect ssid password st
      | Some GetClear \<Rightarrow> handleClearWiFi st
      | Some (GetSetPassword password) \<Rightarrow> handleSetPassword password st)"

text \<open>
  One pass of \<open>loop()\<close>; what the outside world offers during the pass is its argument:
  a pending HTTP request and a pending message on the control topic.
\<close>

record offered =
  http_request :: "request option"
  mqtt_inbound :: "command option option"

definition loop :: "offered \<Rightarrow> device \<Rightarrow> fault \<times> device + device" where
  "loop ev st =
     (if configMode st then Inr (delay 10 (handleClient (http_request ev) st))
      else
        let st1 = (if \<not> WiFi_connected st then connectToWiFi (WiFi_polled st)
                   else WiFi_polled st);
            st2 = (if \<not> mqtt_session st1 then reconnect st1 else st1)
        in case client_loop (mqtt_inbound ev) st2 of
             Inl e \<Rightarrow> Inl e
           | Inr st3 \<Rightarrow> Inr (delay 10 st3))"

text \<open>
  Power-on: the globals take their initialisers, the region and the environment stay.
  The sketch's \<open>setup()\<close> then runs with the level of the reset button as its argument.
  Its \<open>pinMode(0, INPUT_PULLUP)\<close> is not modelled: which of the lines, if any, is pin 0
  is fixed by the board's header.
\<close>

definition power_on :: "device \<Rightarrow> device" where
  "power_on st =
     st\<lparr>ssid_stored := [],
        password_stored := [],
        control_password_stored := default_control_password,
        configMode := False,
        mqtt_armed := False,
        mqtt_session := False,
        subscribed := False,
        server_running := False,
        restarted := False\<rparr>"

definition setup_sketch :: "bool \<Rightarrow> device \<Rightarrow> device" where
  "setup_sketch button_low st =
     (let st1 = setupPins (delay 100 st);
          st2 = delay 100 st1
      in if button_low then startConfigMode (clearEEPROM st2)
         else
           let st3 = loadControlPassword (loadCredentials st2)
           in if 0 < length (ssid_stored st3) then connectToWiFi st3
              else startConfigMode st3)"

definition boot :: "bool \<Rightarrow> device \<Rightarrow> device" where
  "boot button_low st = setup_sketch button_low (power_on st)"


section \<open>Concrete devices\<close>

text \<open>
  A device as it leaves the factory (erased flash reads \<open>0xFF\<close>), one whose control
  secret was set from the configuration page before any network was saved, and one that
  has saved a network.
\<close>

definition blank_eeprom :: eeprom where
  "blank_eeprom a = 0xFF"

definition all_low :: "pin \<Rightarrow> bool" where
  "all_low p = False"

definition link_never_up :: "nat \<Rightarrow> bool" where
  "link_never_up k = False"

definition broker_always_accepts :: "nat \<Rightarrow> bool" where
  "broker_always_accepts k = True"

definition factory_device :: device where
  "factory_device =
     \<lparr>eeprom = blank_eeprom, ssid_stored = [], password_stored = [],
      control_password_stored = default_control_password, configMode = False,
      gpio = all_low, wifi_mode = WIFI_OFF, sta_config = None, soft_ap = None,
      wifi_link = link_never_up, wifi_polls = 0, elapsed_ms = 0,
      mqtt_armed = False, mqtt_session = False, subscribed = False,
      broker_accepts = broker_always_accepts, mqtt_tries = 0, published = [],
      server_running = False, responses = [], restarted = False\<rparr>"

definition secret_only_device :: device where
  "secret_only_device = saveControlPassword ''x'' (clearEEPROM factory_device)"

definition home_device :: device where
  "home_device = saveCredentials ''Home'' ''secret1'' factory_device"

text \<open>
  A device with its control channel up, and five commands: one with a wrong password, one
  with no password member, and three with the right password: an unknown pin name before
  a known one; the number 1 as the value of \<open>d0\<close> before \<open>d1\<close>; and the same with the
  string \<open>1\<close> in place of the number.
\<close>

definition wrong_password_command :: command where
  "wrong_password_command =
     \<lparr>cmd_password = Some ''letmein'',
      cmd_pins = [(''d0'', Some ''on''), (''d1'', Some ''on''), (''d2'', Some ''high'')]\<rparr>"

definition no_password_command :: command where
  "no_password_command = \<lparr>cmd_password = None, cmd_pins = [(''d0'', Some ''on'')]\<rparr>"

definition typo_command :: command where
  "typo_command =
     \<lparr>cmd_password = Some ''appliances123'',
      cmd_pins = [(''d9'', Some ''on''), (''D0'', Some ''ON'')]\<rparr>"

definition number_value_command :: command where
  "number_value_command =
     \<lparr>cmd_password = Some ''appliances123'',
      cmd_pins = [(''d0'', None), (''d1'', Some ''on'')]\<rparr>"

definition text_value_command :: command where
  "text_value_command =
     \<lparr>cmd_password = Some ''appliances123'',
      cmd_pins = [(''d0'', Some ''1''), (''d1'', Some ''on'')]\<rparr>"

definition online_device :: device where
  "online_device = factory_device\<lparr>mqtt_armed := True, mqtt_session := True, subscribed := True\<rparr>"

text \<open>
  Link behaviours, by the number of the poll counted from 0: up from poll 30 on, up from
  poll 3 on, up at polls 0 and 1 only, and up at polls 0 and 1 and again from poll 5 on;
  the devices that meet them; and a pass of the loop during which nothing is offered.
\<close>

definition link_up_from_30 :: "nat \<Rightarrow> bool" where
  "link_up_from_30 k \<longleftrightarrow> 30 \<le> k"

definition link_up_from_3 :: "nat \<Rightarrow> bool" where
  "link_up_from_3 k \<longleftrightarrow> 3 \<le> k"

definition slow_link_device :: device where
  "slow_link_device =
     home_device\<lparr>ssid_stored := ''Home'', password_stored := ''secret1'',
       wifi_link := link_up_from_30\<rparr>"

definition quick_link_device :: device where
  "quick_link_device = factory_device\<lparr>wifi_link := link_up_from_3\<rparr>"

definition link_up_twice :: "nat \<Rightarrow> bool" where
  "link_up_twice k \<longleftrightarrow> k < 2"

definition link_blip :: "nat \<Rightarrow> bool" where
  "link_blip k \<longleftrightarrow> k < 2 \<or> 5 \<le> k"

definition flaky_link_device :: device where
  "flaky_link_device = home_device\<lparr>wifi_link := link_up_twice\<rparr>"

definition blip_link_device :: device where
  "blip_link_device = home_device\<lparr>wifi_link := link_blip\<rparr>"

definition nothing_offered :: offered where
  "nothing_offered = \<lparr>http_request = None, mqtt_inbound = None\<rparr>"

section \<open>The region after each operation\<close>

lemma EEPROM_write_apply:
  "EEPROM_write a v e b = (if a = b \<and> a < 512 then v else e b)"
  by (simp add: EEPROM_write_def EEPROM_SIZE_def)

lemma zero_loop_apply:
  "zero_loop i e a = (if i \<le> a \<and> a < 512 then 0 else e a)"
proof (induction i e rule: zero_loop.induct)
  case (1 i e)
  show ?case
  proof (cases "i < 512")
    case True
    then show ?thesis
      by (subst zero_loop.simps) (auto simp: "1.IH" EEPROM_write_apply)
  next
    case False
    then show ?thesis
      by (subst zero_loop.simps) auto
  qed
qed

lemma write_loop_apply:
  "write_loop base s i e a =
     (if base + i \<le> a \<and> a < base + length s \<and> a < 512 then of_char (s ! (a - base))
      else e a)"
proof (induction base s i e rule: write_loop.induct)
  case (1 base s i e)
  show ?case
  proof (cases "i < length s")
    case True
    then show ?thesis
      by (subst write_loop.simps) (auto simp: "1.IH" EEPROM_write_apply)
  next
    case False
    then show ?thesis
      by (subst write_loop.simps) auto
  qed
qed

lemma read_loop_eq:
  "read_loop base n i e acc =
     acc @ map (\<lambda>j. char_of (unat (EEPROM_read e (base + j)))) [i..<n]"
proof (induction base n i e acc rule: read_loop.induct)
  case (1 base n i e acc)
  show ?case
  proof (cases "i < n")
    case True
    then show ?thesis
      using "1.IH" by (subst read_loop.simps) (simp add: upt_conv_Cons)
  next
    case False
    then show ?thesis
      by (subst read_loop.simps) simp
  qed
qed

lemma unat_of_char: "unat (of_char c :: 8 word) = of_char c"
proof -
  have "(of_char c :: 8 word) = of_nat (of_char c)"
    by (simp add: of_nat_of_char)
  then show ?thesis
    by (simp add: unat_of_nat)
qed

lemma char_of_unat_of_char: "char_of (unat (of_char c :: 8 word)) = c"
  by (simp add: unat_of_char)

lemma read_loop_back:
  assumes "\<And>j. j < length s \<Longrightarrow> EEPROM_read e (base + j) = of_char (s ! j)"
  shows "read_loop base (length s) 0 e acc = acc @ s"
proof -
  have "map (\<lambda>j. char_of (unat (EEPROM_read e (base + j)))) [0..<length s] = s"
    by (rule nth_equalityI) (simp_all add: assms char_of_unat_of_char)
  then show ?thesis
    by (simp add: read_loop_eq)
qed

lemma unat_length_byte: "length s \<le> 255 \<Longrightarrow> unat (of_nat (length s) :: 8 word) = length s"
  by (simp add: unat_of_nat)

lemma magic_hi: "(ucast (drop_bit 8 EEPROM_MAGIC AND 0xFF) :: 8 word) = 0xCD"
  by (simp add: EEPROM_MAGIC_def)

lemma magic_lo: "(ucast (EEPROM_MAGIC AND 0xFF) :: 8 word) = 0x34"
  by (simp add: EEPROM_MAGIC_def)

lemma eeprom_saveCredentials:
  "eeprom (saveCredentials n s st) a =
     (if a = 201 then 0x34
      else if a = 200 then 0xCD
      else if 301 \<le> a \<and> a < 301 + length (control_password_stored st) \<and> a < 512
        then of_char (control_password_stored st ! (a - 301))
      else if a = 300 then of_nat (length (control_password_stored st))
      else if 101 \<le> a \<and> a < 101 + length s \<and> a < 512 then of_char (s ! (a - 101))
      else if a = 100 then of_nat (length s)
      else if 1 \<le> a \<and> a < 1 + length n \<and> a < 512 then of_char (n ! (a - 1))
      else if a = 0 then of_nat (length n)
      else if a < 512 then 0
      else eeprom st a)"
  by (simp add: saveCredentials_def Let_def EEPROM_write_apply write_loop_apply
      zero_loop_apply magic_hi magic_lo)

lemma read_magic_saveCredentials:
  "read_magic (eeprom (saveCredentials n s st)) = EEPROM_MAGIC"
  by (simp add: read_magic_def EEPROM_read_def EEPROM_SIZE_def eeprom_saveCredentials
      EEPROM_MAGIC_def)

lemma loadCredentials_after_save:
  assumes n: "length n \<le> 99" and s: "length s \<le> 99"
    and e: "eeprom st0 = eeprom (saveCredentials n s st)"
  shows "loadCredentials st0 =
           st0\<lparr>ssid_stored := ssid_stored st0 @ n, password_stored := password_stored st0 @ s\<rparr>"
proof -
  let ?e = "eeprom (saveCredentials n s st)"
  have magic: "read_magic ?e = EEPROM_MAGIC"
    by (rule read_magic_saveCredentials)
  have len_n: "unat (EEPROM_read ?e 0) = length n"
    using n by (simp add: EEPROM_read_def EEPROM_SIZE_def eeprom_saveCredentials unat_length_byte)
  have len_s: "unat (EEPROM_read ?e 100) = length s"
    using s by (simp add: EEPROM_read_def EEPROM_SIZE_def eeprom_saveCredentials unat_length_byte)
  have rd_n: "read_loop 1 (length n) 0 ?e acc = acc @ n" for acc
    using n by (intro read_loop_back)
      (simp add: EEPROM_read_def EEPROM_SIZE_def eeprom_saveCredentials)
  have rd_s: "read_loop 101 (length s) 0 ?e acc = acc @ s" for acc
    using s by (intro read_loop_back)
      (simp add: EEPROM_read_def EEPROM_SIZE_def eeprom_saveCredentials)
  define st1 where "st1 = st0\<lparr>ssid_stored := ssid_stored st0 @ n\<rparr>"
  have step1: "(if 0 < length n \<and> length n < 100
                then st0\<lparr>ssid_stored := read_loop 1 (length n) 0 ?e (ssid_stored st0)\<rparr>
                else st0) = st1"
    using n by (cases "n = []") (simp_all add: rd_n st1_def del: One_nat_def)
  have step2: "(if 0 < length s \<and> length s < 100
                then st1\<lparr>password_stored := read_loop 101 (length s) 0 ?e (password_stored st1)\<rparr>
                else st1) = st1\<lparr>password_stored := password_stored st1 @ s\<rparr>"
    using s by (cases "s = []") (simp_all add: rd_s)
  have e1: "eeprom st1 = ?e"
    by (simp add: st1_def e)
  have "loadCredentials st0 = st1\<lparr>password_stored := password_stored st1 @ s\<rparr>"
    unfolding loadCredentials_def Let_def e magic len_n step1 e1 len_s step2 by simp
  then show ?thesis
    by (simp add: st1_def)
qed

lemma loadCredentials_frame:
  "eeprom (loadCredentials st) = eeprom st"
  "control_password_stored (loadCredentials st) = control_password_stored st"
  by (simp_all add: loadCredentials_def Let_def)

lemma loadCredentials_mismatch:
  "read_magic (eeprom st) \<noteq> EEPROM_MAGIC \<Longrightarrow> loadCredentials st = st"
  by (simp add: loadCredentials_def)

lemma power_on_frame:
  "eeprom (power_on st) = eeprom st"
  "ssid_stored (power_on st) = []"
  "password_stored (power_on st) = []"
  "control_password_stored (power_on st) = default_control_password"
  by (simp_all add: power_on_def)

lemma eeprom_saveControlPassword:
  "eeprom (saveControlPassword s st) a =
     (if 301 \<le> a \<and> a < 301 + length s \<and> a < 512 then of_char (s ! (a - 301))
      else if a = 300 then of_nat (length s)
      else eeprom st a)"
  by (simp add: saveControlPassword_def EEPROM_write_apply write_loop_apply)

section \<open>Credential store: round trip and frame\<close>

text \<open>
  Claim C2. For every network name and secret of at most 99 bytes each,
  \<open>saveCredentials\<close> followed by a power cycle and \<open>loadCredentials\<close> gives back the
  name and the secret, and the region carries the validity marker.
\<close>

theorem saveCredentials_load_roundtrip:
  "length n \<le> 99 \<Longrightarrow> length s \<le> 99 \<Longrightarrow>
     ssid_stored (loadCredentials (power_on (saveCredentials n s st))) = n \<and>
     password_stored (loadCredentials (power_on (saveCredentials n s st))) = s \<and>
     read_magic (eeprom (loadCredentials (power_on (saveCredentials n s st)))) = EEPROM_MAGIC"
  by (simp add: loadCredentials_after_save [where st = st] power_on_frame
      read_magic_saveCredentials)

theorem saveCredentials_load_roundtrip_witness:
  "length ''Home'' \<le> 99 \<and> length ''secret1'' \<le> 99 \<and>
   ssid_stored (loadCredentials (power_on (saveCredentials ''Home'' ''secret1'' factory_device)))
     = ''Home'' \<and>
   password_stored (loadCredentials (power_on (saveCredentials ''Home'' ''secret1'' factory_device)))
     = ''secret1'' \<and>
   read_magic (eeprom (loadCredentials (power_on
     (saveCredentials ''Home'' ''secret1'' factory_device)))) = EEPROM_MAGIC"
  using saveCredentials_load_roundtrip [of "''Home''" "''secret1''" factory_device] by simp

text \<open>
  Claim C8. \<open>saveControlPassword\<close> writes the length byte at 300 and the bytes of the
  secret behind it and nothing else: every cell below 300 (network name, network secret
  and the marker at 200 and 201) and every cell behind the secret keeps its value, and so
  do the network name and secret in memory. This holds for a secret of any length.
\<close>

theorem saveControlPassword_frame:
  "(\<forall>a. a < 300 \<or> 300 + length secret < a \<longrightarrow>
        eeprom (saveControlPassword secret st) a = eeprom st a) \<and>
   read_magic (eeprom (saveControlPassword secret st)) = read_magic (eeprom st) \<and>
   ssid_stored (saveControlPassword secret st) = ssid_stored st \<and>
   password_stored (saveControlPassword secret st) = password_stored st"
proof -
  have "ssid_stored (saveControlPassword secret st) = ssid_stored st"
    and "password_stored (saveControlPassword secret st) = password_stored st"
    by (simp_all add: saveControlPassword_def)
  moreover have "\<forall>a. a < 300 \<or> 300 + length secret < a \<longrightarrow>
        eeprom (saveControlPassword secret st) a = eeprom st a"
    by (auto simp: eeprom_saveControlPassword)
  moreover have "read_magic (eeprom (saveControlPassword secret st)) = read_magic (eeprom st)"
    by (simp add: read_magic_def EEPROM_read_def eeprom_saveControlPassword)
  ultimately show ?thesis
    by blast
qed

theorem saveControlPassword_frame_witness:
  "(200 :: nat) < 300 \<and> eeprom (saveControlPassword ''hunter2'' home_device) 200 = 0xCD \<and>
   eeprom home_device 200 = 0xCD"
  using saveControlPassword_frame [of "''hunter2''" home_device]
  by (simp add: home_device_def eeprom_saveCredentials)

lemma length_read_loop: "length (read_loop base n 0 e []) = n"
  by (simp add: read_loop_eq)

lemma loadControlPassword_eq:
  "control_password_stored (loadControlPassword st) =
     (if 0 < unat (EEPROM_read (eeprom st) 300) \<and> unat (EEPROM_read (eeprom st) 300) < 50
      then map (\<lambda>j. char_of (unat (EEPROM_read (eeprom st) (301 + j))))
             [0..<unat (EEPROM_read (eeprom st) 300)]
      else control_password_stored st)"
  by (simp add: loadControlPassword_def Let_def read_loop_eq)

lemma loadControlPassword_frame:
  "eeprom (loadControlPassword st) = eeprom st"
  "ssid_stored (loadControlPassword st) = ssid_stored st"
  "password_stored (loadControlPassword st) = password_stored st"
  by (simp_all add: loadControlPassword_def Let_def)

lemma length_default: "length default_control_password = 13"
  by (simp add: default_control_password_def)

lemma reload_length:
  "1 \<le> length (control_password_stored (loadControlPassword (loadCredentials (power_on st)))) \<and>
   length (control_password_stored (loadControlPassword (loadCredentials (power_on st)))) \<le> 49"
  by (simp add: loadControlPassword_eq loadCredentials_frame power_on_frame length_default)

lemma reload_after_saveControlPassword:
  assumes "1 \<le> length s" "length s \<le> 49"
  shows "control_password_stored
           (loadControlPassword (loadCredentials (power_on (saveControlPassword s st)))) = s"
proof -
  let ?e = "eeprom (saveControlPassword s st)"
  have len: "unat (EEPROM_read ?e 300) = length s"
    using assms by (simp add: EEPROM_read_def EEPROM_SIZE_def eeprom_saveControlPassword
        unat_length_byte)
  have rd: "read_loop 301 (length s) 0 ?e [] = [] @ s"
    using assms by (intro read_loop_back)
      (simp add: EEPROM_read_def EEPROM_SIZE_def eeprom_saveControlPassword)
  from assms have "0 < length s \<and> length s < 50"
    by (cases s) simp_all
  then show ?thesis
    by (simp add: loadControlPassword_def Let_def loadCredentials_frame power_on_frame len rd
        del: length_greater_0_conv)
qed

text \<open>
  Claim C10. \<open>saveControlPassword s\<close>, a power cycle and the boot-time load give back
  \<open>s\<close> exactly when \<open>s\<close> has between 1 and 49 bytes. Saving the empty string writes
  the length byte 0, which the loader reads as no data: after the power cycle the control
  secret is the default again, not the empty string.
\<close>
theorem saveControlPassword_reload:
  "(control_password_stored
      (loadControlPassword (loadCredentials (power_on (saveControlPassword s st)))) = s
    \<longleftrightarrow> 1 \<le> length s \<and> length s \<le> 49) \<and>
   control_password_stored
      (loadControlPassword (loadCredentials (power_on (saveControlPassword [] st))))
     = default_control_password \<and>
   eeprom (saveControlPassword [] st) 300 = 0"
proof -
  let ?r = "\<lambda>s. control_password_stored
      (loadControlPassword (loadCredentials (power_on (saveControlPassword s st))))"
  have "?r s = s \<longleftrightarrow> 1 \<le> length s \<and> length s \<le> 49"
  proof
    assume "?r s = s"
    then show "1 \<le> length s \<and> length s \<le> 49"
      using reload_length [of "saveControlPassword s st"] by simp
  next
    assume "1 \<le> length s \<and> length s \<le> 49"
    then show "?r s = s"
      by (simp add: reload_after_saveControlPassword)
  qed
  moreover have "?r [] = default_control_password"
    by (simp add: loadControlPassword_eq loadCredentials_frame power_on_frame
        EEPROM_read_def EEPROM_SIZE_def eeprom_saveControlPassword)
  moreover have "eeprom (saveControlPassword [] st) 300 = 0"
    by (simp add: eeprom_saveControlPassword)
  ultimately show ?thesis
    by blast
qed

theorem saveControlPassword_reload_witness:
  "control_password_stored
      (loadControlPassword (loadCredentials (power_on (saveControlPassword ''hunter2'' factory_device))))
     = ''hunter2'' \<and>
   control_password_stored
      (loadControlPassword (loadCredentials (power_on (saveControlPassword [] factory_device))))
     = ''appliances123''"
  using saveControlPassword_reload [of "''hunter2''" factory_device]
  by (simp add: default_control_password_def)

text \<open>
  Claim C4, as amended. When the marker mismatches, the boot-time load leaves network name
  and secret empty and the region as it was (so the marker still mismatches), whatever the
  bytes of the region. The control secret is read without looking at the marker: it is
  the default when the length byte at 300 is outside 1 .. 49, and the stored bytes behind
  that length byte otherwise.
\<close>
theorem load_marker_mismatch:
  "read_magic (eeprom st) \<noteq> EEPROM_MAGIC \<Longrightarrow>
     ssid_stored (loadControlPassword (loadCredentials (power_on st))) = [] \<and>
     password_stored (loadControlPassword (loadCredentials (power_on st))) = [] \<and>
     eeprom (loadControlPassword (loadCredentials (power_on st))) = eeprom st \<and>
     read_magic (eeprom (loadControlPassword (loadCredentials (power_on st)))) \<noteq> EEPROM_MAGIC \<and>
     control_password_stored (loadControlPassword (loadCredentials (power_on st))) =
       (if 0 < unat (EEPROM_read (eeprom st) 300) \<and> unat (EEPROM_read (eeprom st) 300) < 50
        then map (\<lambda>j. char_of (unat (EEPROM_read (eeprom st) (301 + j))))
               [0..<unat (EEPROM_read (eeprom st) 300)]
        else default_control_password)"
  by (simp add: loadControlPassword_eq loadControlPassword_frame loadCredentials_mismatch
      power_on_frame)

lemma eeprom_secret_only:
  "eeprom secret_only_device a =
     (if a = 301 then 0x78 else if a = 300 then 1 else if a < 512 then 0 else 0xFF)"
  by (simp add: secret_only_device_def eeprom_saveControlPassword clearEEPROM_def
      zero_loop_apply factory_device_def blank_eeprom_def)

lemma char_of_120: "char_of (120 :: nat) = CHR ''x''"
  by code_simp

lemma EEPROM_read_secret_only:
  "EEPROM_read (eeprom secret_only_device) 300 = 1"
  "EEPROM_read (eeprom secret_only_device) 301 = 0x78"
  by (simp_all add: EEPROM_read_def EEPROM_SIZE_def eeprom_secret_only)

lemma read_magic_secret_only: "read_magic (eeprom secret_only_device) = 0"
  by (simp add: read_magic_def EEPROM_read_def EEPROM_SIZE_def eeprom_secret_only)

theorem load_marker_mismatch_witness:
  "read_magic (eeprom secret_only_device) \<noteq> EEPROM_MAGIC \<and>
   ssid_stored (loadControlPassword (loadCredentials (power_on secret_only_device))) = [] \<and>
   password_stored (loadControlPassword (loadCredentials (power_on secret_only_device))) = [] \<and>
   control_password_stored (loadControlPassword (loadCredentials (power_on secret_only_device)))
     = ''x'' \<and>
   ssid_stored (loadControlPassword (loadCredentials (power_on factory_device))) = [] \<and>
   control_password_stored (loadControlPassword (loadCredentials (power_on factory_device)))
     = ''appliances123''"
proof -
  have m: "read_magic (eeprom secret_only_device) \<noteq> EEPROM_MAGIC"
    by (simp add: read_magic_secret_only EEPROM_MAGIC_def)
  have f: "read_magic (eeprom factory_device) \<noteq> EEPROM_MAGIC"
    by (simp add: read_magic_def EEPROM_read_def EEPROM_SIZE_def factory_device_def
        blank_eeprom_def EEPROM_MAGIC_def)
  have b: "EEPROM_read (eeprom factory_device) 300 = 0xFF"
    by (simp add: EEPROM_read_def EEPROM_SIZE_def factory_device_def blank_eeprom_def)
  show ?thesis
    using m load_marker_mismatch [OF m] load_marker_mismatch [OF f]
    by (simp add: b EEPROM_read_secret_only char_of_120 default_control_password_def)
qed

theorem marker_mismatch_secret_counterexample:
  "read_magic (eeprom secret_only_device) \<noteq> EEPROM_MAGIC \<and>
   control_password_stored (loadControlPassword (loadCredentials (power_on secret_only_device)))
     = ''x'' \<and>
   control_password_stored (loadControlPassword (loadCredentials (power_on secret_only_device)))
     \<noteq> default_control_password"
proof -
  have m: "read_magic (eeprom secret_only_device) \<noteq> EEPROM_MAGIC"
    by (simp add: read_magic_secret_only EEPROM_MAGIC_def)
  have "control_password_stored
          (loadControlPassword (loadCredentials (power_on secret_only_device))) = ''x''"
    by (simp add: loadControlPassword_eq loadCredentials_frame power_on_frame
        EEPROM_read_secret_only char_of_120)
  with m show ?thesis
    by (simp add: default_control_password_def)
qed

section \<open>Control channel: authorisation, pin entries and the state message\<close>

lemma tolower_digit:
  "tolower CHR ''0'' = CHR ''0''" "tolower CHR ''1'' = CHR ''1''" "tolower CHR ''2'' = CHR ''2''"
  "tolower CHR ''3'' = CHR ''3''" "tolower CHR ''4'' = CHR ''4''" "tolower CHR ''5'' = CHR ''5''"
  "tolower CHR ''6'' = CHR ''6''" "tolower CHR ''7'' = CHR ''7''" "tolower CHR ''8'' = CHR ''8''"
  by (simp_all add: tolower_def)

lemma tolower_upper:
  "tolower CHR ''D'' = CHR ''d''" "tolower CHR ''O'' = CHR ''o''" "tolower CHR ''N'' = CHR ''n''"
  by code_simp+

lemma tolower_lower:
  "tolower CHR ''d'' = CHR ''d''" "tolower CHR ''o'' = CHR ''o''" "tolower CHR ''n'' = CHR ''n''"
  "tolower CHR ''h'' = CHR ''h''" "tolower CHR ''9'' = CHR ''9''"
  by (simp_all add: tolower_def)

lemma online_device_fields:
  "control_password_stored online_device = default_control_password"
  "gpio online_device = all_low"
  "published online_device = []"
  "mqtt_session online_device"
  by (simp_all add: online_device_def factory_device_def)

text \<open>
  Claim C1. A command whose password fails \<open>validateControlPassword\<close> leaves the whole
  device as it was, whatever its pin entries: the callback returns, no output line changes
  and nothing is published, also when the command arrives through \<open>client.loop()\<close>.
\<close>
theorem callback_wrong_password:
  "\<not> validateControlPassword (receivedPassword doc) st \<Longrightarrow>
     callback (Some doc) st = Inr st \<and>
     client_loop (Some (Some doc)) st = Inr st \<and>
     gpio (state_of (client_loop (Some (Some doc)) st)) = gpio st \<and>
     published (state_of (client_loop (Some (Some doc)) st)) = published st"
  by (simp add: callback_def client_loop_def state_of_def)

theorem callback_wrong_password_witness:
  "\<not> validateControlPassword (receivedPassword wrong_password_command) online_device \<and>
   callback (Some wrong_password_command) online_device = Inr online_device \<and>
   client_loop (Some (Some wrong_password_command)) online_device = Inr online_device \<and>
   gpio (state_of (client_loop (Some (Some wrong_password_command)) online_device)) = all_low"
proof -
  have h: "\<not> validateControlPassword (receivedPassword wrong_password_command) online_device"
    by (simp add: validateControlPassword_def receivedPassword_def wrong_password_command_def
        online_device_fields default_control_password_def)
  from h callback_wrong_password [OF h] show ?thesis
    by (simp add: online_device_fields state_of_def)
qed

text \<open>
  Claim C9. A command without a password member is validated as the empty string: it
  passes exactly when the stored control secret is empty. Under a non-empty secret the
  callback returns and leaves the device as it was; under the empty secret its pins are
  applied and, when the pin loop returns, the state is published.
\<close>
theorem callback_without_password:
  "cmd_password doc = None \<Longrightarrow>
     (validateControlPassword (receivedPassword doc) st \<longleftrightarrow> control_password_stored st = []) \<and>
     (control_password_stored st \<noteq> [] \<longrightarrow> callback (Some doc) st = Inr st) \<and>
     (control_password_stored st = [] \<longrightarrow>
        callback (Some doc) st =
          (case callback_pins (cmd_pins doc) st of
             Inl e \<Rightarrow> Inl e
           | Inr st1 \<Rightarrow> Inr (publish_state st1)))"
  by (auto simp: callback_def validateControlPassword_def receivedPassword_def)

theorem callback_without_password_witness:
  "cmd_password no_password_command = None \<and>
   control_password_stored online_device = default_control_password \<and>
   control_password_stored online_device \<noteq> [] \<and>
   callback (Some no_password_command) online_device = Inr online_device \<and>
   control_password_stored (saveControlPassword [] online_device) = [] \<and>
   callback (Some no_password_command) (saveControlPassword [] online_device) =
     Inr (publish_state (digitalWrite D0 True (saveControlPassword [] online_device)))"
proof -
  have h: "cmd_password no_password_command = None"
    by (simp add: no_password_command_def)
  have d: "control_password_stored online_device = default_control_password"
    by (simp add: online_device_fields)
  have e: "control_password_stored (saveControlPassword [] online_device) = []"
    by (simp add: saveControlPassword_def)
  have p: "callback_pins (cmd_pins no_password_command) (saveControlPassword [] online_device) =
      Inr (digitalWrite D0 True (saveControlPassword [] online_device))"
    by (simp add: no_password_command_def pinMap_def tolower_lower tolower_digit)
  show ?thesis
    using h d e callback_without_password [OF h, of online_device]
      callback_without_password [OF h, of "saveControlPassword [] online_device"]
    by (simp add: default_control_password_def p)
qed

lemma state_payload_eq:
  "state_payload st =
     map (\<lambda>(name, p). (name, if gpio st p then ''on'' else ''off'')) pinMap"
  by (simp add: state_payload_def pinMap_def)

lemma distinct_pinMap: "distinct (map fst pinMap)"
  by (simp add: pinMap_def)

text \<open>
  Claim C7. The payload \<open>publish_state\<close> builds has exactly the configured names, once
  each and in table order, every value is \<open>on\<close> or \<open>off\<close> according to the level of
  that line, and this payload is what a publish adds to the published messages.
\<close>
theorem publish_state_complete:
  "map fst (state_payload st) = map fst pinMap \<and>
   distinct (map fst pinMap) \<and>
   list_all (\<lambda>(name, v). v = ''on'' \<or> v = ''off'') (state_payload st) \<and>
   state_payload st = map (\<lambda>(name, p). (name, if gpio st p then ''on'' else ''off'')) pinMap \<and>
   published (publish_state st) =
     (if mqtt_session st then published st @ [state_payload st] else published st)"
proof -
  have "map fst (state_payload st) = map fst pinMap"
    by (simp add: state_payload_eq pinMap_def)
  moreover have "list_all (\<lambda>(name, v). v = ''on'' \<or> v = ''off'') (state_payload st)"
    by (simp add: state_payload_eq pinMap_def)
  moreover have "published (publish_state st) =
     (if mqtt_session st then published st @ [state_payload st] else published st)"
    by (simp add: publish_state_def)
  ultimately show ?thesis
    using state_payload_eq distinct_pinMap by blast
qed

theorem publish_state_complete_witness:
  "state_payload (digitalWrite D3 True online_device) =
     [(''d0'', ''off''), (''d1'', ''off''), (''d2'', ''off''), (''d3'', ''on''), (''d4'', ''off''),
      (''d5'', ''off''), (''d6'', ''off''), (''d7'', ''off''), (''d8'', ''off'')] \<and>
   published (publish_state (digitalWrite D3 True online_device)) =
     [[(''d0'', ''off''), (''d1'', ''off''), (''d2'', ''off''), (''d3'', ''on''), (''d4'', ''off''),
      (''d5'', ''off''), (''d6'', ''off''), (''d7'', ''off''), (''d8'', ''off'')]]"
  using publish_state_complete [of "digitalWrite D3 True online_device"]
  by (simp add: pinMap_def digitalWrite_def online_device_def factory_device_def all_low_def)

lemma of_char_int_zero: "(of_char c :: int) = 0 \<longleftrightarrow> c = CHR 0x00"
proof -
  have "(of_char c :: int) = of_char (CHR 0x00) \<longleftrightarrow> c = CHR 0x00"
    by (rule of_char_eq_iff)
  then show ?thesis by simp
qed

lemma tolower_d: "tolower CHR ''d'' = CHR ''d''"
  by (simp add: tolower_def)

lemma match_second_char:
  assumes "strcasecmp [CHR ''d'', b] k = 0" and "strcasecmp [CHR ''d'', b'] k = 0"
  shows "tolower b = tolower b'"
proof (cases k)
  case Nil
  with assms(1) show ?thesis
    by (simp add: tolower_d)
next
  case (Cons x r)
  note k = Cons
  show ?thesis
  proof (cases r)
    case Nil
    with k assms show ?thesis
      by (simp add: of_char_int_zero split: if_splits)
  next
    case (Cons y r')
    with k assms show ?thesis
      by (simp split: if_splits)
  qed
qed

lemma pinMap_names:
  "(name, p) \<in> set pinMap \<Longrightarrow> name = [CHR ''d'', name ! 1] \<and> tolower (name ! 1) = name ! 1"
  unfolding pinMap_def by (auto simp: tolower_digit)

lemma pinMap_functional:
  "(name, p) \<in> set pinMap \<Longrightarrow> (name, p') \<in> set pinMap \<Longrightarrow> p = p'"
  using distinct_pinMap by (rule eq_key_imp_eq_value)

lemma matching_line_unique:
  assumes "(name, p) \<in> set pinMap" "strcasecmp name k = 0"
    and "(name', p') \<in> set pinMap" "strcasecmp name' k = 0"
  shows "p' = p"
proof -
  from assms(1) have b: "name = [CHR ''d'', name ! 1]" "tolower (name ! 1) = name ! 1"
    by (rule pinMap_names [THEN conjunct1], rule pinMap_names [THEN conjunct2])
  from assms(3) have b': "name' = [CHR ''d'', name' ! 1]" "tolower (name' ! 1) = name' ! 1"
    by (rule pinMap_names [THEN conjunct1], rule pinMap_names [THEN conjunct2])
  from assms(2) have "strcasecmp [CHR ''d'', name ! 1] k = 0"
    using b(1) by simp
  moreover from assms(4) have "strcasecmp [CHR ''d'', name' ! 1] k = 0"
    using b'(1) by simp
  ultimately have "tolower (name ! 1) = tolower (name' ! 1)"
    by (rule match_second_char)
  with b b' have "name = name'"
    by simp
  with assms(1,3) show ?thesis
    using pinMap_functional by blast
qed

lemma callback_pin_no_match:
  "\<forall>(name, p) \<in> set pm. strcasecmp name k \<noteq> 0 \<Longrightarrow> callback_pin pm k v st = Inr st"
proof (induction pm)
  case Nil
  show ?case by simp
next
  case (Cons a pm)
  obtain n q where a: "a = (n, q)"
    by (cases a)
  from Cons.prems a have "strcasecmp n k \<noteq> 0"
    by simp
  moreover from Cons.prems have "\<forall>(name, p) \<in> set pm. strcasecmp name k \<noteq> 0"
    by simp
  ultimately show ?case
    using Cons.IH a by simp
qed

lemma callback_pin_match:
  "(name, p) \<in> set pm \<Longrightarrow> strcasecmp name k = 0 \<Longrightarrow>
   \<forall>(name', p') \<in> set pm. strcasecmp name' k = 0 \<longrightarrow> p' = p \<Longrightarrow>
   callback_pin pm k v st =
     (case v of
        None \<Rightarrow> Inl (NullPointer, st)
      | Some val \<Rightarrow>
          Inr (digitalWrite p (strcasecmp val ''on'' = 0 \<or> strcasecmp val ''high'' = 0) st))"
proof (induction pm)
  case Nil
  then show ?case by simp
next
  case (Cons a pm)
  obtain n q where a: "a = (n, q)"
    by (cases a)
  show ?case
  proof (cases "strcasecmp n k = 0")
    case True
    with Cons.prems(3) a have "q = p"
      by simp
    with True a show ?thesis
      by (simp del: strcasecmp.simps split: option.splits)
  next
    case False
    with Cons.prems(1,2) a have in_pm: "(name, p) \<in> set pm"
      by auto
    from Cons.prems(3) have "\<forall>(name', p') \<in> set pm. strcasecmp name' k = 0 \<longrightarrow> p' = p"
      by simp
    with in_pm Cons.prems(2) have "callback_pin pm k v st =
        (case v of
           None \<Rightarrow> Inl (NullPointer, st)
         | Some val \<Rightarrow>
             Inr (digitalWrite p (strcasecmp val ''on'' = 0 \<or> strcasecmp val ''high'' = 0) st))"
      by (rule Cons.IH)
    with False a show ?thesis
      by (simp del: strcasecmp.simps)
  qed
qed

lemma callback_pin_pinMap:
  assumes "(name, p) \<in> set pinMap" "strcasecmp name k = 0"
  shows "callback_pin pinMap k v st =
     (case v of
        None \<Rightarrow> Inl (NullPointer, st)
      | Some val \<Rightarrow>
          Inr (digitalWrite p (strcasecmp val ''on'' = 0 \<or> strcasecmp val ''high'' = 0) st))"
proof (rule callback_pin_match [OF assms])
  show "\<forall>(name', p') \<in> set pinMap. strcasecmp name' k = 0 \<longrightarrow> p' = p"
    using matching_line_unique [OF assms] by blast
qed

lemma callback_pins_append:
  "callback_pins (xs @ ys) st =
     (case callback_pins xs st of Inl e \<Rightarrow> Inl e | Inr st1 \<Rightarrow> callback_pins ys st1)"
  by (induction xs arbitrary: st) (auto split: sum.splits)

text \<open>
  What one entry \<open>(k, v)\<close> of an authenticated command does, once the entries before it
  have been applied and left the device in \<open>st1\<close>: a name that matches no line is passed
  over, whatever the value; a name that matches a line writes that line when the value is
  a string; and a name that matches a line with a value that is not a string ends the
  callback in the fault, with the entries behind it not applied and nothing published.
\<close>

lemma callback_entry_effect:
  assumes auth: "validateControlPassword (receivedPassword doc) st"
    and pins: "cmd_pins doc = xs @ (k, v) # ys"
    and before: "callback_pins xs st = Inr st1"
  shows "\<forall>(name, p) \<in> set pinMap. strcasecmp name k \<noteq> 0 \<Longrightarrow>
           callback (Some doc) st =
             (case callback_pins ys st1 of Inl e \<Rightarrow> Inl e | Inr st2 \<Rightarrow> Inr (publish_state st2))"
    and "(name, p) \<in> set pinMap \<Longrightarrow> strcasecmp name k = 0 \<Longrightarrow> v = Some val \<Longrightarrow>
           callback (Some doc) st =
             (case callback_pins ys
                     (digitalWrite p (strcasecmp val ''on'' = 0 \<or> strcasecmp val ''high'' = 0) st1) of
                Inl e \<Rightarrow> Inl e
              | Inr st2 \<Rightarrow> Inr (publish_state st2))"
    and "(name, p) \<in> set pinMap \<Longrightarrow> strcasecmp name k = 0 \<Longrightarrow> v = None \<Longrightarrow>
           callback (Some doc) st = Inl (NullPointer, st1)"
proof -
  have run: "callback (Some doc) st =
      (case (case callback_pin pinMap k v st1 of Inl e \<Rightarrow> Inl e | Inr st2 \<Rightarrow> callback_pins ys st2) of
         Inl e \<Rightarrow> Inl e
       | Inr st2 \<Rightarrow> Inr (publish_state st2))"
    using auth by (simp add: callback_def pins callback_pins_append before)
  show "callback (Some doc) st =
      (case callback_pins ys st1 of Inl e \<Rightarrow> Inl e | Inr st2 \<Rightarrow> Inr (publish_state st2))"
    if "\<forall>(name, p) \<in> set pinMap. strcasecmp name k \<noteq> 0"
    unfolding run callback_pin_no_match [OF that] by simp
  show "callback (Some doc) st =
      (case callback_pins ys
              (digitalWrite p (strcasecmp val ''on'' = 0 \<or> strcasecmp val ''high'' = 0) st1) of
         Inl e \<Rightarrow> Inl e
       | Inr st2 \<Rightarrow> Inr (publish_state st2))"
    if "(name, p) \<in> set pinMap" "strcasecmp name k = 0" "v = Some val"
    unfolding run callback_pin_pinMap [OF that(1,2)] that(3) by simp
  show "callback (Some doc) st = Inl (NullPointer, st1)"
    if "(name, p) \<in> set pinMap" "strcasecmp name k = 0" "v = None"
    unfolding run callback_pin_pinMap [OF that(1,2)] that(3) by simp
qed

text \<open>
  Claim C6, where the code departs from it. With the default control secret, the
  authenticated command \<open>{"pins": {"d0": 1, "d1": "on"}}\<close> hands \<open>strcasecmp\<close> the null
  pointer at \<open>d0\<close>: the callback ends in the fault with the device as it was, \<open>d1\<close> stays
  low and nothing is published. The same command with the string \<open>"1"\<close> in place of the
  number turns \<open>d0\<close> off and \<open>d1\<close> on and publishes, and a command with the unknown name
  \<open>d9\<close> before \<open>D0\<close> passes \<open>d9\<close> over, turns \<open>d0\<close> on and publishes.
\<close>
theorem callback_number_value_fault:
  "validateControlPassword (receivedPassword number_value_command) online_device \<and>
   cmd_pins number_value_command = [(''d0'', None), (''d1'', Some ''on'')] \<and>
   callback (Some number_value_command) online_device = Inl (NullPointer, online_device) \<and>
   \<not> gpio (state_of (callback (Some number_value_command) online_device)) D1 \<and>
   published (state_of (callback (Some number_value_command) online_device)) = [] \<and>
   callback (Some text_value_command) online_device =
     Inr (publish_state (digitalWrite D1 True (digitalWrite D0 False online_device))) \<and>
   callback (Some typo_command) online_device =
     Inr (publish_state (digitalWrite D0 True online_device))"
proof -
  have auth: "validateControlPassword (receivedPassword number_value_command) online_device"
    "validateControlPassword (receivedPassword text_value_command) online_device"
    "validateControlPassword (receivedPassword typo_command) online_device"
    by (simp_all add: validateControlPassword_def receivedPassword_def number_value_command_def
        text_value_command_def typo_command_def online_device_fields default_control_password_def)
  have pins: "cmd_pins number_value_command = [] @ (''d0'', None) # [(''d1'', Some ''on'')]"
    by (simp add: number_value_command_def)
  have d0: "(''d0'', D0) \<in> set pinMap" and m: "strcasecmp ''d0'' ''d0'' = 0"
    by (simp_all add: pinMap_def tolower_lower tolower_digit)
  have crash: "callback (Some number_value_command) online_device = Inl (NullPointer, online_device)"
    by (rule callback_entry_effect(3) [OF auth(1) pins _ d0 m]) simp_all
  have str: "callback (Some text_value_command) online_device =
      Inr (publish_state (digitalWrite D1 True (digitalWrite D0 False online_device)))"
    using auth(2)
    by (simp add: callback_def text_value_command_def pinMap_def tolower_lower tolower_digit)
  have typo: "callback (Some typo_command) online_device =
      Inr (publish_state (digitalWrite D0 True online_device))"
    using auth(3)
    by (simp add: callback_def typo_command_def pinMap_def tolower_lower tolower_upper
        tolower_digit)
  from auth(1) pins crash str typo show ?thesis
    by (simp add: state_of_def online_device_fields all_low_def)
qed

section \<open>Bounded connection attempts\<close>

lemma connectToWiFi_wait_until:
  "\<forall>k<n. \<not> wifi_link st (wifi_polls st + k) \<Longrightarrow>
   wifi_link st (wifi_polls st + n) \<or> timeout + n = 40 \<Longrightarrow> timeout + n \<le> 40 \<Longrightarrow>
   connectToWiFi_wait timeout st =
     st\<lparr>wifi_polls := wifi_polls st + Suc n, elapsed_ms := elapsed_ms st + 500 * n\<rparr>"
proof (induction n arbitrary: timeout st)
  case 0
  then show ?case
    by (subst connectToWiFi_wait.simps) (auto simp: WiFi_connected_def WiFi_polled_def)
next
  case (Suc n)
  let ?st = "delay 500 (WiFi_polled st)"
  have down: "\<not> WiFi_connected st"
    using Suc.prems(1) by (auto simp: WiFi_connected_def)
  have lt: "timeout < 40"
    using Suc.prems(3) by simp
  have link: "wifi_link ?st = wifi_link st" and polls: "wifi_polls ?st = Suc (wifi_polls st)"
    by (simp_all add: delay_def WiFi_polled_def)
  have "\<forall>k<n. \<not> wifi_link ?st (wifi_polls ?st + k)"
    using Suc.prems(1) by (auto simp: link polls)
  moreover have "wifi_link ?st (wifi_polls ?st + n) \<or> Suc timeout + n = 40"
    using Suc.prems(2) by (simp add: link polls)
  moreover have "Suc timeout + n \<le> 40"
    using Suc.prems(3) by simp
  ultimately have "connectToWiFi_wait (Suc timeout) ?st =
      ?st\<lparr>wifi_polls := wifi_polls ?st + Suc n, elapsed_ms := elapsed_ms ?st + 500 * n\<rparr>"
    by (rule Suc.IH)
  with down lt show ?case
    by (subst connectToWiFi_wait.simps) (simp add: delay_def WiFi_polled_def)
qed

lemma handleConnect_wait_eq:
  "handleConnect_wait timeout st = connectToWiFi_wait (timeout + 20) st"
proof (induction timeout st rule: handleConnect_wait.induct)
  case (1 timeout st)
  show ?case
  proof (cases "\<not> WiFi_connected st \<and> timeout < 20")
    case True
    then show ?thesis
      using "1.IH"
      by (subst handleConnect_wait.simps, subst connectToWiFi_wait.simps) simp
  next
    case False
    then show ?thesis
      by (subst handleConnect_wait.simps, subst connectToWiFi_wait.simps) auto
  qed
qed

text \<open>The number of waits of an attempt that starts with the counter at \<open>timeout\<close>.\<close>

lemma connectToWiFi_wait_shape:
  "timeout \<le> 40 \<Longrightarrow>
   \<exists>w. timeout + w \<le> 40 \<and>
       connectToWiFi_wait timeout st =
         st\<lparr>wifi_polls := wifi_polls st + Suc w, elapsed_ms := elapsed_ms st + 500 * w\<rparr> \<and>
       (\<forall>k<w. \<not> wifi_link st (wifi_polls st + k)) \<and>
       (timeout + w < 40 \<longrightarrow> wifi_link st (wifi_polls st + w))"
proof -
  assume t: "timeout \<le> 40"
  show ?thesis
  proof (cases "\<exists>n. timeout + n < 40 \<and> wifi_link st (wifi_polls st + n)")
    case True
    define w where "w = (LEAST n. timeout + n < 40 \<and> wifi_link st (wifi_polls st + n))"
    from True have w: "timeout + w < 40 \<and> wifi_link st (wifi_polls st + w)"
      unfolding w_def by (rule LeastI_ex)
    have down: "\<forall>k<w. \<not> wifi_link st (wifi_polls st + k)"
    proof (intro allI impI)
      fix k assume "k < w"
      then have "\<not> (timeout + k < 40 \<and> wifi_link st (wifi_polls st + k))"
        unfolding w_def by (rule not_less_Least)
      with \<open>k < w\<close> w show "\<not> wifi_link st (wifi_polls st + k)"
        by simp
    qed
    from down w have "connectToWiFi_wait timeout st =
        st\<lparr>wifi_polls := wifi_polls st + Suc w, elapsed_ms := elapsed_ms st + 500 * w\<rparr>"
      by (intro connectToWiFi_wait_until) simp_all
    with down w show ?thesis
      by (intro exI [of _ w]) simp
  next
    case False
    define w where "w = 40 - timeout"
    from False have down: "\<forall>k<w. \<not> wifi_link st (wifi_polls st + k)"
      unfolding w_def by auto
    from t have tw: "timeout + w = 40"
      unfolding w_def by simp
    from down tw have "connectToWiFi_wait timeout st =
        st\<lparr>wifi_polls := wifi_polls st + Suc w, elapsed_ms := elapsed_ms st + 500 * w\<rparr>"
      by (intro connectToWiFi_wait_until) simp_all
    with down tw show ?thesis
      by (intro exI [of _ w]) simp
  qed
qed

lemma connectToWiFi_wait_frame:
  "connectToWiFi_wait timeout st =
     st\<lparr>wifi_polls := wifi_polls (connectToWiFi_wait timeout st),
        elapsed_ms := elapsed_ms (connectToWiFi_wait timeout st)\<rparr>"
proof (induction timeout st rule: connectToWiFi_wait.induct)
  case (1 timeout st)
  show ?case
  proof (cases "\<not> WiFi_connected st \<and> timeout < 40")
    case True
    let ?r = "connectToWiFi_wait (Suc timeout) (delay 500 (WiFi_polled st))"
    from True have unfold: "connectToWiFi_wait timeout st = ?r"
      by (subst connectToWiFi_wait.simps) simp
    from True have "?r = (delay 500 (WiFi_polled st))\<lparr>wifi_polls := wifi_polls ?r,
        elapsed_ms := elapsed_ms ?r\<rparr>"
      using "1.IH" by simp
    then have "?r = st\<lparr>wifi_polls := wifi_polls ?r, elapsed_ms := elapsed_ms ?r\<rparr>"
      by (simp add: delay_def WiFi_polled_def)
    then show ?thesis
      unfolding unfold .
  next
    case False
    then have "connectToWiFi_wait timeout st = WiFi_polled st"
      by (subst connectToWiFi_wait.simps) auto
    then show ?thesis
      by (simp add: WiFi_polled_def)
  qed
qed

lemma wait_fields:
  "eeprom (connectToWiFi_wait t st) = eeprom st"
  "configMode (connectToWiFi_wait t st) = configMode st"
  "wifi_link (connectToWiFi_wait t st) = wifi_link st"
  "restarted (connectToWiFi_wait t st) = restarted st"
  "responses (connectToWiFi_wait t st) = responses st"
  "ssid_stored (connectToWiFi_wait t st) = ssid_stored st"
  "password_stored (connectToWiFi_wait t st) = password_stored st"
  "control_password_stored (connectToWiFi_wait t st) = control_password_stored st"
  by (subst connectToWiFi_wait_frame, simp)+

lemma WiFi_begin_fields:
  "eeprom (WiFi_begin a b st) = eeprom st"
  "configMode (WiFi_begin a b st) = configMode st"
  "wifi_link (WiFi_begin a b st) = wifi_link st"
  "wifi_polls (WiFi_begin a b st) = wifi_polls st"
  "elapsed_ms (WiFi_begin a b st) = elapsed_ms st"
  "restarted (WiFi_begin a b st) = restarted st"
  "responses (WiFi_begin a b st) = responses st"
  "ssid_stored (WiFi_begin a b st) = ssid_stored st"
  "password_stored (WiFi_begin a b st) = password_stored st"
  "control_password_stored (WiFi_begin a b st) = control_password_stored st"
  by (simp_all add: WiFi_begin_def)

lemma eeprom_saveCredentials_cong:
  "eeprom st' = eeprom st \<Longrightarrow> control_password_stored st' = control_password_stored st \<Longrightarrow>
     eeprom (saveCredentials n s st') = eeprom (saveCredentials n s st)"
  by (simp add: saveCredentials_def)

lemma handleConnect_success:
  assumes "WiFi_connected (handleConnect_wait 0 (WiFi_begin ssid password st))"
  shows "eeprom (handleConnect ssid password st) = eeprom (saveCredentials ssid password st)"
    and "restarted (handleConnect ssid password st)"
    and "responses (handleConnect ssid password st) = responses st @ [(200, SuccessTrue)]"
proof -
  let ?st1 = "handleConnect_wait 0 (WiFi_begin ssid password st)"
  have h: "handleConnect ssid password st =
      ESP_restart (delay 1000 (send 200 SuccessTrue (saveCredentials ssid password (WiFi_polled ?st1))))"
    using assms by (simp add: handleConnect_def Let_def)
  have e: "eeprom (WiFi_polled ?st1) = eeprom st"
    and c: "control_password_stored (WiFi_polled ?st1) = control_password_stored st"
    and r: "responses (WiFi_polled ?st1) = responses st"
    by (simp_all add: WiFi_polled_def handleConnect_wait_eq wait_fields WiFi_begin_fields)
  show "eeprom (handleConnect ssid password st) = eeprom (saveCredentials ssid password st)"
    unfolding h using eeprom_saveCredentials_cong [OF e c]
    by (simp add: ESP_restart_def delay_def send_def)
  show "restarted (handleConnect ssid password st)"
    unfolding h by (simp add: ESP_restart_def)
  show "responses (handleConnect ssid password st) = responses st @ [(200, SuccessTrue)]"
    unfolding h using r
    by (simp add: ESP_restart_def delay_def send_def saveCredentials_def Let_def)
qed

lemma handleConnect_failure:
  assumes "\<not> WiFi_connected (handleConnect_wait 0 (WiFi_begin ssid password st))"
  shows "eeprom (handleConnect ssid password st) = eeprom st"
    and "restarted (handleConnect ssid password st) = restarted st"
    and "responses (handleConnect ssid password st) =
           responses st @ [(200, SuccessFalse ''Connection timeout'')]"
    and "ssid_stored (handleConnect ssid password st) = ssid_stored st"
    and "password_stored (handleConnect ssid password st) = password_stored st"
    and "control_password_stored (handleConnect ssid password st) = control_password_stored st"
proof -
  let ?st1 = "handleConnect_wait 0 (WiFi_begin ssid password st)"
  have h: "handleConnect ssid password st =
      send 200 (SuccessFalse ''Connection timeout'') (WiFi_polled ?st1)"
    using assms by (simp add: handleConnect_def Let_def)
  show "eeprom (handleConnect ssid password st) = eeprom st"
    and "restarted (handleConnect ssid password st) = restarted st"
    and "responses (handleConnect ssid password st) =
           responses st @ [(200, SuccessFalse ''Connection timeout'')]"
    and "ssid_stored (handleConnect ssid password st) = ssid_stored st"
    and "password_stored (handleConnect ssid password st) = password_stored st"
    and "control_password_stored (handleConnect ssid password st) = control_password_stored st"
    unfolding h
    by (simp_all add: send_def WiFi_polled_def handleConnect_wait_eq wait_fields WiFi_begin_fields)
qed

lemma waits_agree:
  assumes "\<exists>k\<le>20. wifi_link st (wifi_polls st + k)"
  shows "handleConnect_wait 0 st = connectToWiFi_wait 0 st"
proof -
  define n where "n = (LEAST k. wifi_link st (wifi_polls st + k))"
  from assms obtain k where k: "k \<le> 20" "wifi_link st (wifi_polls st + k)"
    by blast
  then have up: "wifi_link st (wifi_polls st + n)"
    unfolding n_def by (intro LeastI)
  have "n \<le> k"
    unfolding n_def using k(2) by (rule Least_le)
  with k(1) have n: "n \<le> 20"
    by simp
  have down: "\<forall>j<n. \<not> wifi_link st (wifi_polls st + j)"
    unfolding n_def using not_less_Least by blast
  have "connectToWiFi_wait 20 st =
      st\<lparr>wifi_polls := wifi_polls st + Suc n, elapsed_ms := elapsed_ms st + 500 * n\<rparr>"
    using down up n by (intro connectToWiFi_wait_until) simp_all
  moreover have "connectToWiFi_wait 0 st =
      st\<lparr>wifi_polls := wifi_polls st + Suc n, elapsed_ms := elapsed_ms st + 500 * n\<rparr>"
    using down up n by (intro connectToWiFi_wait_until) simp_all
  ultimately show ?thesis
    by (simp add: handleConnect_wait_eq)
qed

lemma connectToWiFi_up:
  assumes "WiFi_connected (connectToWiFi_wait 0 (WiFi_begin (ssid_stored st) (password_stored st) st))"
  shows "configMode (connectToWiFi st) = configMode st" and "mqtt_armed (connectToWiFi st)"
  using assms
  by (simp_all add: connectToWiFi_def Let_def WiFi_polled_def wait_fields WiFi_begin_fields)

lemma connectToWiFi_down:
  assumes "\<not> WiFi_connected (connectToWiFi_wait 0 (WiFi_begin (ssid_stored st) (password_stored st) st))"
  shows "configMode (connectToWiFi st)"
  using assms
  by (simp add: connectToWiFi_def Let_def startConfigMode_def setupWebServer_def)

text \<open>
  Claim C5, as amended. The Connect handler polls and waits as \<open>connectToWiFi\<close> does,
  500 ms per wait, but gives up after 20 waits where \<open>connectToWiFi\<close> gives up after 40.
  Both loops stop at the first poll that reports the link up; when that happens within
  the first 21 polls the two loops end in the same state. After the loop the status is
  read once more: if it is up, the handler persists the credentials, answers success and
  restarts; if it is down, it answers \<open>Connection timeout\<close> and leaves the region, the
  credentials in memory and the restart flag as they were.
\<close>
theorem handleConnect_bounded_attempt:
  "(\<exists>w\<le>20. handleConnect_wait 0 st =
        st\<lparr>wifi_polls := wifi_polls st + Suc w, elapsed_ms := elapsed_ms st + 500 * w\<rparr> \<and>
      (\<forall>k<w. \<not> wifi_link st (wifi_polls st + k)) \<and>
      (w < 20 \<longrightarrow> wifi_link st (wifi_polls st + w))) \<and>
   (\<exists>w\<le>40. connectToWiFi_wait 0 st =
        st\<lparr>wifi_polls := wifi_polls st + Suc w, elapsed_ms := elapsed_ms st + 500 * w\<rparr> \<and>
      (\<forall>k<w. \<not> wifi_link st (wifi_polls st + k)) \<and>
      (w < 40 \<longrightarrow> wifi_link st (wifi_polls st + w))) \<and>
   ((\<exists>k\<le>20. wifi_link st (wifi_polls st + k)) \<longrightarrow>
      handleConnect_wait 0 st = connectToWiFi_wait 0 st) \<and>
   (WiFi_connected (handleConnect_wait 0 (WiFi_begin ssid password st)) \<longrightarrow>
      eeprom (handleConnect ssid password st) = eeprom (saveCredentials ssid password st) \<and>
      restarted (handleConnect ssid password st) \<and>
      responses (handleConnect ssid password st) = responses st @ [(200, SuccessTrue)]) \<and>
   (\<not> WiFi_connected (handleConnect_wait 0 (WiFi_begin ssid password st)) \<longrightarrow>
      eeprom (handleConnect ssid password st) = eeprom st \<and>
      restarted (handleConnect ssid password st) = restarted st \<and>
      responses (handleConnect ssid password st) =
        responses st @ [(200, SuccessFalse ''Connection timeout'')] \<and>
      ssid_stored (handleConnect ssid password st) = ssid_stored st \<and>
      password_stored (handleConnect ssid password st) = password_stored st \<and>
      control_password_stored (handleConnect ssid password st) = control_password_stored st)"
proof (intro conjI)
  from connectToWiFi_wait_shape [of 20 st]
  obtain w where w: "20 + w \<le> 40"
    "connectToWiFi_wait 20 st =
       st\<lparr>wifi_polls := wifi_polls st + Suc w, elapsed_ms := elapsed_ms st + 500 * w\<rparr>"
    "\<forall>k<w. \<not> wifi_link st (wifi_polls st + k)"
    "20 + w < 40 \<longrightarrow> wifi_link st (wifi_polls st + w)"
    by auto
  show "\<exists>w\<le>20. handleConnect_wait 0 st =
        st\<lparr>wifi_polls := wifi_polls st + Suc w, elapsed_ms := elapsed_ms st + 500 * w\<rparr> \<and>
      (\<forall>k<w. \<not> wifi_link st (wifi_polls st + k)) \<and>
      (w < 20 \<longrightarrow> wifi_link st (wifi_polls st + w))"
    using w by (intro exI [of _ w]) (simp add: handleConnect_wait_eq)
next
  from connectToWiFi_wait_shape [of 0 st]
  show "\<exists>w\<le>40. connectToWiFi_wait 0 st =
        st\<lparr>wifi_polls := wifi_polls st + Suc w, elapsed_ms := elapsed_ms st + 500 * w\<rparr> \<and>
      (\<forall>k<w. \<not> wifi_link st (wifi_polls st + k)) \<and>
      (w < 40 \<longrightarrow> wifi_link st (wifi_polls st + w))"
    by simp
next
  show "(\<exists>k\<le>20. wifi_link st (wifi_polls st + k)) \<longrightarrow>
      handleConnect_wait 0 st = connectToWiFi_wait 0 st"
    using waits_agree by blast
next
  show "WiFi_connected (handleConnect_wait 0 (WiFi_begin ssid password st)) \<longrightarrow>
      eeprom (handleConnect ssid password st) = eeprom (saveCredentials ssid password st) \<and>
      restarted (handleConnect ssid password st) \<and>
      responses (handleConnect ssid password st) = responses st @ [(200, SuccessTrue)]"
    using handleConnect_success by blast
next
  show "\<not> WiFi_connected (handleConnect_wait 0 (WiFi_begin ssid password st)) \<longrightarrow>
      eeprom (handleConnect ssid password st) = eeprom st \<and>
      restarted (handleConnect ssid password st) = restarted st \<and>
      responses (handleConnect ssid password st) =
        responses st @ [(200, SuccessFalse ''Connection timeout'')] \<and>
      ssid_stored (handleConnect ssid password st) = ssid_stored st \<and>
      password_stored (handleConnect ssid password st) = password_stored st \<and>
      control_password_stored (handleConnect ssid password st) = control_password_stored st"
    using handleConnect_failure by blast
qed

lemma quick_wait:
  "handleConnect_wait 0 (WiFi_begin a b quick_link_device) =
     (WiFi_begin a b quick_link_device)\<lparr>wifi_polls := 4, elapsed_ms := 1500\<rparr>"
proof -
  let ?st = "WiFi_begin a b quick_link_device"
  have l: "wifi_link ?st = link_up_from_3" and p: "wifi_polls ?st = 0" and e: "elapsed_ms ?st = 0"
    by (simp_all add: WiFi_begin_def quick_link_device_def factory_device_def)
  have "connectToWiFi_wait 20 ?st =
      ?st\<lparr>wifi_polls := wifi_polls ?st + Suc 3, elapsed_ms := elapsed_ms ?st + 500 * 3\<rparr>"
    by (rule connectToWiFi_wait_until) (simp_all add: l p link_up_from_3_def)
  then show ?thesis
    by (simp add: handleConnect_wait_eq p e)
qed

lemma never_wait:
  "handleConnect_wait 0 (WiFi_begin a b factory_device) =
     (WiFi_begin a b factory_device)\<lparr>wifi_polls := 21, elapsed_ms := 10000\<rparr>"
proof -
  let ?st = "WiFi_begin a b factory_device"
  have l: "wifi_link ?st = link_never_up" and p: "wifi_polls ?st = 0" and e: "elapsed_ms ?st = 0"
    by (simp_all add: WiFi_begin_def factory_device_def)
  have "connectToWiFi_wait 20 ?st =
      ?st\<lparr>wifi_polls := wifi_polls ?st + Suc 20, elapsed_ms := elapsed_ms ?st + 500 * 20\<rparr>"
    by (rule connectToWiFi_wait_until) (simp_all add: l p link_never_up_def)
  then show ?thesis
    by (simp add: handleConnect_wait_eq p e)
qed

theorem handleConnect_bounded_attempt_witness:
  "WiFi_connected (handleConnect_wait 0 (WiFi_begin ''Home'' ''secret1'' quick_link_device)) \<and>
   restarted (handleConnect ''Home'' ''secret1'' quick_link_device) \<and>
   responses (handleConnect ''Home'' ''secret1'' quick_link_device) = [(200, SuccessTrue)] \<and>
   read_magic (eeprom (handleConnect ''Home'' ''secret1'' quick_link_device)) = EEPROM_MAGIC \<and>
   wifi_link quick_link_device (wifi_polls quick_link_device + 3) \<and>
   handleConnect_wait 0 quick_link_device = connectToWiFi_wait 0 quick_link_device \<and>
   \<not> WiFi_connected (handleConnect_wait 0 (WiFi_begin ''Home'' ''secret1'' factory_device)) \<and>
   \<not> restarted (handleConnect ''Home'' ''secret1'' factory_device) \<and>
   responses (handleConnect ''Home'' ''secret1'' factory_device) =
     [(200, SuccessFalse ''Connection timeout'')] \<and>
   eeprom (handleConnect ''Home'' ''secret1'' factory_device) = eeprom factory_device"
proof -
  have up: "WiFi_connected (handleConnect_wait 0 (WiFi_begin ''Home'' ''secret1'' quick_link_device))"
    unfolding quick_wait
    by (simp add: WiFi_connected_def WiFi_begin_def quick_link_device_def
        factory_device_def link_up_from_3_def)
  have down: "\<not> WiFi_connected (handleConnect_wait 0 (WiFi_begin ''Home'' ''secret1'' factory_device))"
    unfolding never_wait
    by (simp add: WiFi_connected_def WiFi_begin_def factory_device_def link_never_up_def)
  have l3: "wifi_link quick_link_device (wifi_polls quick_link_device + 3)"
    by (simp add: quick_link_device_def factory_device_def link_up_from_3_def)
  then have ex: "\<exists>k\<le>20. wifi_link quick_link_device (wifi_polls quick_link_device + k)"
    by (intro exI [of _ 3]) simp
  have r: "responses quick_link_device = []" "responses factory_device = []"
    "\<not> restarted factory_device"
    by (simp_all add: quick_link_device_def factory_device_def)
  note q = handleConnect_bounded_attempt [of quick_link_device "''Home''" "''secret1''"]
  note f = handleConnect_bounded_attempt [of factory_device "''Home''" "''secret1''"]
  from q ex have agree: "handleConnect_wait 0 quick_link_device = connectToWiFi_wait 0 quick_link_device"
    by blast
  from q up have s: "eeprom (handleConnect ''Home'' ''secret1'' quick_link_device) =
        eeprom (saveCredentials ''Home'' ''secret1'' quick_link_device)"
      "restarted (handleConnect ''Home'' ''secret1'' quick_link_device)"
      "responses (handleConnect ''Home'' ''secret1'' quick_link_device) =
        responses quick_link_device @ [(200, SuccessTrue)]"
    by blast+
  from f down have t: "eeprom (handleConnect ''Home'' ''secret1'' factory_device) = eeprom factory_device"
      "restarted (handleConnect ''Home'' ''secret1'' factory_device) = restarted factory_device"
      "responses (handleConnect ''Home'' ''secret1'' factory_device) =
        responses factory_device @ [(200, SuccessFalse ''Connection timeout'')]"
    by blast+
  from up down l3 agree s t r show ?thesis
    by (simp add: read_magic_saveCredentials)
qed

lemma slow_fields:
  "wifi_link (WiFi_begin a b slow_link_device) = link_up_from_30"
  "wifi_polls (WiFi_begin a b slow_link_device) = 0"
  "elapsed_ms (WiFi_begin a b slow_link_device) = 0"
  "responses slow_link_device = []"
  "\<not> restarted slow_link_device"
  "\<not> configMode slow_link_device"
  "ssid_stored slow_link_device = ''Home''"
  "password_stored slow_link_device = ''secret1''"
  by (simp_all add: WiFi_begin_def slow_link_device_def home_device_def saveCredentials_def
      Let_def factory_device_def)

lemma slow_handle_wait:
  "handleConnect_wait 0 (WiFi_begin a b slow_link_device) =
     (WiFi_begin a b slow_link_device)\<lparr>wifi_polls := 21, elapsed_ms := 10000\<rparr>"
proof -
  let ?st = "WiFi_begin a b slow_link_device"
  have "connectToWiFi_wait 20 ?st =
      ?st\<lparr>wifi_polls := wifi_polls ?st + Suc 20, elapsed_ms := elapsed_ms ?st + 500 * 20\<rparr>"
    by (rule connectToWiFi_wait_until) (simp_all add: slow_fields link_up_from_30_def)
  then show ?thesis
    by (simp add: handleConnect_wait_eq slow_fields)
qed

lemma slow_connect_wait:
  "connectToWiFi_wait 0 (WiFi_begin a b slow_link_device) =
     (WiFi_begin a b slow_link_device)\<lparr>wifi_polls := 31, elapsed_ms := 15000\<rparr>"
proof -
  let ?st = "WiFi_begin a b slow_link_device"
  have "connectToWiFi_wait 0 ?st =
      ?st\<lparr>wifi_polls := wifi_polls ?st + Suc 30, elapsed_ms := elapsed_ms ?st + 500 * 30\<rparr>"
    by (rule connectToWiFi_wait_until) (simp_all add: slow_fields link_up_from_30_def)
  then show ?thesis
    by (simp add: slow_fields)
qed

theorem handleConnect_same_attempt_counterexample:
  "responses (handleConnect ''Home'' ''secret1'' slow_link_device) =
     [(200, SuccessFalse ''Connection timeout'')] \<and>
   \<not> restarted (handleConnect ''Home'' ''secret1'' slow_link_device) \<and>
   \<not> configMode (connectToWiFi slow_link_device) \<and>
   mqtt_armed (connectToWiFi slow_link_device) \<and>
   elapsed_ms (handleConnect_wait 0 (WiFi_begin ''Home'' ''secret1'' slow_link_device)) = 10000 \<and>
   elapsed_ms (connectToWiFi_wait 0 (WiFi_begin ''Home'' ''secret1'' slow_link_device)) = 15000"
proof -
  have down: "\<not> WiFi_connected (handleConnect_wait 0 (WiFi_begin ''Home'' ''secret1'' slow_link_device))"
    by (simp add: slow_handle_wait WiFi_connected_def slow_fields link_up_from_30_def)
  have up: "WiFi_connected (connectToWiFi_wait 0
      (WiFi_begin (ssid_stored slow_link_device) (password_stored slow_link_device) slow_link_device))"
    by (simp add: slow_connect_wait WiFi_connected_def slow_fields link_up_from_30_def)
  from handleConnect_failure [OF down] connectToWiFi_up [OF up] show ?thesis
    by (simp add: slow_fields slow_handle_wait slow_connect_wait)
qed

section \<open>Supervisor loop: the mode after a link loss\<close>

lemma configMode_callback_pin:
  "configMode (state_of (callback_pin pm k v st)) = configMode st"
  by (induction pm k v st rule: callback_pin.induct)
    (simp_all add: state_of_def digitalWrite_def del: strcasecmp.simps split: option.splits)

lemma configMode_callback_pins:
  "configMode (state_of (callback_pins kvs st)) = configMode st"
proof (induction kvs st rule: callback_pins.induct)
  case (1 st)
  show ?case by (simp add: state_of_def)
next
  case (2 pinLabel v kvs st)
  show ?case
  proof (cases "callback_pin pinMap pinLabel v st")
    case (Inl e)
    with configMode_callback_pin [of pinMap pinLabel v st] show ?thesis
      by simp
  next
    case (Inr st1)
    with configMode_callback_pin [of pinMap pinLabel v st] have "configMode st1 = configMode st"
      by (simp add: state_of_def)
    with Inr "2.IH" [OF Inr] show ?thesis
      by simp
  qed
qed

lemma configMode_publish_state: "configMode (publish_state st) = configMode st"
  by (simp add: publish_state_def)

lemma configMode_callback: "configMode (state_of (callback msg st)) = configMode st"
proof (cases msg)
  case None
  then show ?thesis
    by (simp add: callback_def state_of_def)
next
  case (Some doc)
  show ?thesis
  proof (cases "callback_pins (cmd_pins doc) st")
    case (Inl e)
    with configMode_callback_pins [of "cmd_pins doc" st] Some show ?thesis
      by (simp add: callback_def state_of_def)
  next
    case (Inr st1)
    with configMode_callback_pins [of "cmd_pins doc" st] Some show ?thesis
      by (simp add: callback_def state_of_def configMode_publish_state)
  qed
qed

lemma configMode_client_loop:
  "configMode (state_of (client_loop inbound st)) = configMode st"
  by (cases inbound) (simp_all add: client_loop_def configMode_callback, simp_all add: state_of_def)

lemma loop_returns:
  "mqtt_inbound ev = None \<Longrightarrow> \<not> isl (loop ev st)"
  by (simp add: loop_def Let_def client_loop_def)

lemma configMode_reconnect_loop: "configMode (reconnect_loop attempts st) = configMode st"
proof (induction attempts st rule: reconnect_loop.induct)
  case (1 attempts st)
  show ?case
  proof (cases "\<not> mqtt_session st \<and> attempts < 5")
    case False
    then show ?thesis
      by (subst reconnect_loop.simps) auto
  next
    case True
    note go = True
    show ?thesis
    proof (cases "broker_accepts st (mqtt_tries st)")
      case True
      with go "1.IH"(1) show ?thesis
        by (subst reconnect_loop.simps)
          (simp add: configMode_publish_state client_connect_def)
    next
      case False
      with go "1.IH"(2) show ?thesis
        by (subst reconnect_loop.simps) (simp add: delay_def client_connect_def)
    qed
  qed
qed

lemma configMode_connectToWiFi:
  "configMode (connectToWiFi st) \<longleftrightarrow>
     configMode st \<or>
     \<not> WiFi_connected (connectToWiFi_wait 0 (WiFi_begin (ssid_stored st) (password_stored st) st))"
  using connectToWiFi_up(1) [of st] connectToWiFi_down [of st] by blast

lemma configMode_after_delay:
  "configMode (state_of (case r of Inl e \<Rightarrow> Inl e | Inr st3 \<Rightarrow> Inr (delay 10 st3))) =
     configMode (state_of r)"
  by (cases r) (simp_all add: state_of_def delay_def)

lemma configMode_loop:
  "\<not> configMode st \<Longrightarrow>
     configMode (state_of (loop ev st)) \<longleftrightarrow>
       \<not> WiFi_connected st \<and>
       \<not> WiFi_connected (connectToWiFi_wait 0
           (WiFi_begin (ssid_stored st) (password_stored st) (WiFi_polled st)))"
  by (simp add: loop_def Let_def configMode_after_delay configMode_client_loop reconnect_def
      configMode_reconnect_loop configMode_connectToWiFi)
    (simp add: WiFi_polled_def)

lemma loop_link_lost:
  assumes op: "\<not> configMode st" and lost: "\<not> WiFi_connected st"
    and n: "n \<le> 40"
    and down: "\<forall>k<n. \<not> wifi_link st (wifi_polls st + 1 + k)"
    and stop: "wifi_link st (wifi_polls st + 1 + n) \<or> n = 40"
  shows "configMode (state_of (loop ev st)) \<longleftrightarrow> \<not> wifi_link st (wifi_polls st + n + 2)"
proof -
  let ?st0 = "WiFi_begin (ssid_stored st) (password_stored st) (WiFi_polled st)"
  have l: "wifi_link ?st0 = wifi_link st" and p: "wifi_polls ?st0 = wifi_polls st + 1"
    by (simp_all add: WiFi_begin_def WiFi_polled_def)
  have "connectToWiFi_wait 0 ?st0 =
      ?st0\<lparr>wifi_polls := wifi_polls ?st0 + Suc n, elapsed_ms := elapsed_ms ?st0 + 500 * n\<rparr>"
    using n down stop by (intro connectToWiFi_wait_until) (simp_all add: l p)
  then have "WiFi_connected (connectToWiFi_wait 0 ?st0) = wifi_link st (wifi_polls st + n + 2)"
    by (simp add: WiFi_connected_def l p)
  with op lost show ?thesis
    by (simp add: configMode_loop)
qed

lemma setupPins_loop_frame:
  "setupPins_loop pm st = st\<lparr>gpio := gpio (setupPins_loop pm st)\<rparr>"
proof (induction pm st rule: setupPins_loop.induct)
  case (1 st)
  show ?case by simp
next
  case (2 name p rest st)
  let ?r = "setupPins_loop rest (digitalWrite p False st)"
  from 2 have "?r = (digitalWrite p False st)\<lparr>gpio := gpio ?r\<rparr>" .
  then have "?r = st\<lparr>gpio := gpio ?r\<rparr>"
    by (simp add: digitalWrite_def)
  then show ?case
    by simp
qed

lemma setupPins_fields:
  "eeprom (setupPins st) = eeprom st"
  "ssid_stored (setupPins st) = ssid_stored st"
  "password_stored (setupPins st) = password_stored st"
  "control_password_stored (setupPins st) = control_password_stored st"
  "configMode (setupPins st) = configMode st"
  "wifi_link (setupPins st) = wifi_link st"
  "wifi_polls (setupPins st) = wifi_polls st"
  unfolding setupPins_def by (subst setupPins_loop_frame, simp)+

lemma boot_loaded:
  assumes "eeprom st = eeprom (saveCredentials n s st')" "length n \<le> 99" "length s \<le> 99"
  defines "st3 \<equiv> loadControlPassword (loadCredentials (delay 100 (setupPins (delay 100 (power_on st)))))"
  shows "ssid_stored st3 = n" "password_stored st3 = s" "\<not> configMode st3"
    "wifi_link st3 = wifi_link st" "wifi_polls st3 = wifi_polls st"
proof -
  let ?st2 = "delay 100 (setupPins (delay 100 (power_on st)))"
  have e: "eeprom ?st2 = eeprom (saveCredentials n s st')"
    by (simp add: delay_def setupPins_fields power_on_frame assms(1))
  have f: "ssid_stored ?st2 = []" "password_stored ?st2 = []" "\<not> configMode ?st2"
    "wifi_link ?st2 = wifi_link st" "wifi_polls ?st2 = wifi_polls st"
    by (simp_all add: delay_def setupPins_fields power_on_def)
  have ld: "loadCredentials ?st2 = ?st2\<lparr>ssid_stored := n, password_stored := s\<rparr>"
    using loadCredentials_after_save [OF assms(2,3) e] by (simp add: f)
  show "ssid_stored st3 = n" "password_stored st3 = s" "\<not> configMode st3"
    "wifi_link st3 = wifi_link st" "wifi_polls st3 = wifi_polls st"
    unfolding st3_def ld using f
    by (simp_all add: loadControlPassword_def Let_def)
qed

lemma boot_operational:
  assumes e: "eeprom st = eeprom home_device"
    and up: "wifi_link st (wifi_polls st)" "wifi_link st (Suc (wifi_polls st))"
  shows "\<not> configMode (boot False st)"
    and "wifi_polls (boot False st) = wifi_polls st + 2"
    and "wifi_link (boot False st) = wifi_link st"
    and "mqtt_armed (boot False st)"
proof -
  define st3 where
    "st3 = loadControlPassword (loadCredentials (delay 100 (setupPins (delay 100 (power_on st)))))"
  have e': "eeprom st = eeprom (saveCredentials ''Home'' ''secret1'' factory_device)"
    using e by (simp add: home_device_def)
  have f: "ssid_stored st3 = ''Home''" "password_stored st3 = ''secret1''" "\<not> configMode st3"
    "wifi_link st3 = wifi_link st" "wifi_polls st3 = wifi_polls st"
    unfolding st3_def by (rule boot_loaded [OF e'], simp, simp)+
  have b: "boot False st = connectToWiFi st3"
    by (simp add: boot_def setup_sketch_def Let_def st3_def [symmetric] f)
  let ?st0 = "WiFi_begin (ssid_stored st3) (password_stored st3) st3"
  have l: "wifi_link ?st0 = wifi_link st" and p: "wifi_polls ?st0 = wifi_polls st"
    by (simp_all add: WiFi_begin_def f)
  have w: "connectToWiFi_wait 0 ?st0 =
      ?st0\<lparr>wifi_polls := wifi_polls ?st0 + Suc 0, elapsed_ms := elapsed_ms ?st0 + 500 * 0\<rparr>"
    using up by (intro connectToWiFi_wait_until) (simp_all add: l p)
  have c: "WiFi_connected (connectToWiFi_wait 0 ?st0)"
    unfolding w using up(2) by (simp add: WiFi_connected_def l p)
  have r: "connectToWiFi st3 = (WiFi_polled (connectToWiFi_wait 0 ?st0))\<lparr>mqtt_armed := True\<rparr>"
    using c by (simp add: connectToWiFi_def Let_def)
  show "\<not> configMode (boot False st)"
    unfolding b using connectToWiFi_up(1) [OF c] f by simp
  show "mqtt_armed (boot False st)"
    unfolding b using connectToWiFi_up(2) [OF c] .
  show "wifi_polls (boot False st) = wifi_polls st + 2"
    unfolding b r w by (simp add: WiFi_polled_def p)
  show "wifi_link (boot False st) = wifi_link st"
    unfolding b r w by (simp add: WiFi_polled_def l)
qed

lemma flaky_boot:
  "\<not> configMode (boot False flaky_link_device)"
  "wifi_polls (boot False flaky_link_device) = 2"
  "wifi_link (boot False flaky_link_device) = link_up_twice"
  "mqtt_armed (boot False flaky_link_device)"
proof -
  have e: "eeprom flaky_link_device = eeprom home_device"
    and l: "wifi_link flaky_link_device = link_up_twice"
    and p: "wifi_polls flaky_link_device = 0"
    by (simp_all add: flaky_link_device_def home_device_def saveCredentials_def Let_def
        factory_device_def)
  have up: "wifi_link flaky_link_device (wifi_polls flaky_link_device)"
    "wifi_link flaky_link_device (Suc (wifi_polls flaky_link_device))"
    by (simp_all add: l p link_up_twice_def)
  show "\<not> configMode (boot False flaky_link_device)"
    "wifi_polls (boot False flaky_link_device) = 2"
    "wifi_link (boot False flaky_link_device) = link_up_twice"
    "mqtt_armed (boot False flaky_link_device)"
    using boot_operational [OF e up] by (simp_all add: l p)
qed

lemma blip_boot:
  "\<not> configMode (boot False blip_link_device)"
  "wifi_polls (boot False blip_link_device) = 2"
  "wifi_link (boot False blip_link_device) = link_blip"
proof -
  have e: "eeprom blip_link_device = eeprom home_device"
    and l: "wifi_link blip_link_device = link_blip"
    and p: "wifi_polls blip_link_device = 0"
    by (simp_all add: blip_link_device_def home_device_def saveCredentials_def Let_def
        factory_device_def)
  have up: "wifi_link blip_link_device (wifi_polls blip_link_device)"
    "wifi_link blip_link_device (Suc (wifi_polls blip_link_device))"
    by (simp_all add: l p link_blip_def)
  show "\<not> configMode (boot False blip_link_device)"
    "wifi_polls (boot False blip_link_device) = 2"
    "wifi_link (boot False blip_link_device) = link_blip"
    using boot_operational [OF e up] by (simp_all add: l p)
qed

text \<open>
  Claim C3, as amended. The mode after a pass is the mode flag of \<open>state_of\<close> the pass:
  of the device when the pass returns, and of the device as the fault left it when a
  message ends the callback in a fault; a pass with no message waiting returns. In
  Operational mode a pass of the loop that finds the link up leaves the mode alone. A pass that finds it down runs \<open>connectToWiFi\<close> in place, and
  the mode after the pass is Provisioning exactly when the status read after the wait loop
  is down: with \<open>n\<close> the number of waits until a poll reports the link up (or 40), that
  is the poll \<open>n + 2\<close> after the one that found the loss. A link that stays down through
  the attempt puts the device into Provisioning mode.
\<close>
theorem loop_link_loss_mode:
  "\<not> configMode st \<Longrightarrow>
     (mqtt_inbound ev = None \<longrightarrow> \<not> isl (loop ev st)) \<and>
     (WiFi_connected st \<longrightarrow> \<not> configMode (state_of (loop ev st))) \<and>
     (\<not> WiFi_connected st \<longrightarrow>
        (configMode (state_of (loop ev st)) \<longleftrightarrow>
           \<not> WiFi_connected (connectToWiFi_wait 0
               (WiFi_begin (ssid_stored st) (password_stored st) (WiFi_polled st)))) \<and>
        (\<forall>n\<le>40. (\<forall>k<n. \<not> wifi_link st (wifi_polls st + 1 + k)) \<and>
                 (wifi_link st (wifi_polls st + 1 + n) \<or> n = 40) \<longrightarrow>
           (configMode (state_of (loop ev st)) \<longleftrightarrow> \<not> wifi_link st (wifi_polls st + n + 2))) \<and>
        ((\<forall>k\<le>42. \<not> wifi_link st (wifi_polls st + k)) \<longrightarrow> configMode (state_of (loop ev st))))"
proof -
  assume op: "\<not> configMode st"
  have a: "WiFi_connected st \<longrightarrow> \<not> configMode (state_of (loop ev st))"
    using op by (simp add: configMode_loop)
  have b: "configMode (state_of (loop ev st)) \<longleftrightarrow>
      \<not> WiFi_connected (connectToWiFi_wait 0
          (WiFi_begin (ssid_stored st) (password_stored st) (WiFi_polled st)))"
    if "\<not> WiFi_connected st"
    using op that by (simp add: configMode_loop)
  have c: "\<forall>n\<le>40. (\<forall>k<n. \<not> wifi_link st (wifi_polls st + 1 + k)) \<and>
        (wifi_link st (wifi_polls st + 1 + n) \<or> n = 40) \<longrightarrow>
        (configMode (state_of (loop ev st)) \<longleftrightarrow> \<not> wifi_link st (wifi_polls st + n + 2))"
    if "\<not> WiFi_connected st"
    using loop_link_lost [OF op that] by blast
  have d: "configMode (state_of (loop ev st))"
    if lost: "\<not> WiFi_connected st" and all: "\<forall>k\<le>42. \<not> wifi_link st (wifi_polls st + k)"
  proof -
    have "\<forall>k<40. \<not> wifi_link st (wifi_polls st + 1 + k)"
    proof (intro allI impI)
      fix k :: nat
      assume "k < 40"
      then have "1 + k \<le> 42"
        by simp
      with all have "\<not> wifi_link st (wifi_polls st + (1 + k))"
        by blast
      then show "\<not> wifi_link st (wifi_polls st + 1 + k)"
        by (simp add: add.assoc)
    qed
    then have "configMode (state_of (loop ev st)) \<longleftrightarrow> \<not> wifi_link st (wifi_polls st + 40 + 2)"
      by (intro loop_link_lost [OF op lost]) simp_all
    moreover from all have "\<not> wifi_link st (wifi_polls st + 42)"
      by simp
    ultimately show ?thesis
      by (simp add: add.commute)
  qed
  have r: "mqtt_inbound ev = None \<longrightarrow> \<not> isl (loop ev st)"
    using loop_returns by blast
  from r a b c d show ?thesis
    by blast
qed

theorem loop_link_loss_mode_witness:
  "\<not> configMode (boot False blip_link_device) \<and>
   \<not> WiFi_connected (boot False blip_link_device) \<and>
   \<not> isl (loop nothing_offered (boot False blip_link_device)) \<and>
   \<not> configMode (state_of (loop nothing_offered (boot False blip_link_device))) \<and>
   \<not> configMode (boot False flaky_link_device) \<and>
   \<not> WiFi_connected (boot False flaky_link_device) \<and>
   \<not> isl (loop nothing_offered (boot False flaky_link_device)) \<and>
   configMode (state_of (loop nothing_offered (boot False flaky_link_device)))"
proof -
  let ?b = "boot False blip_link_device" and ?f = "boot False flaky_link_device"
  have lb: "\<not> WiFi_connected ?b" and lf: "\<not> WiFi_connected ?f"
    by (simp_all add: WiFi_connected_def blip_boot flaky_boot link_blip_def link_up_twice_def)
  have nb: "(\<forall>k<2. \<not> wifi_link ?b (wifi_polls ?b + 1 + k)) \<and>
      (wifi_link ?b (wifi_polls ?b + 1 + 2) \<or> (2 :: nat) = 40)"
    by (simp add: blip_boot link_blip_def)
  have fb: "wifi_link ?b (wifi_polls ?b + 2 + 2)"
    by (simp add: blip_boot link_blip_def)
  have af: "\<forall>k\<le>42. \<not> wifi_link ?f (wifi_polls ?f + k)"
    by (simp add: flaky_boot link_up_twice_def)
  from loop_link_loss_mode [OF blip_boot(1), of nothing_offered] lb
  have "\<forall>n\<le>40. (\<forall>k<n. \<not> wifi_link ?b (wifi_polls ?b + 1 + k)) \<and>
        (wifi_link ?b (wifi_polls ?b + 1 + n) \<or> n = 40) \<longrightarrow>
        (configMode (state_of (loop nothing_offered ?b)) \<longleftrightarrow> \<not> wifi_link ?b (wifi_polls ?b + n + 2))"
    by blast
  then have "configMode (state_of (loop nothing_offered ?b)) \<longleftrightarrow> \<not> wifi_link ?b (wifi_polls ?b + 2 + 2)"
    using nb by (elim allE [of _ 2]) simp
  with fb have rb: "\<not> configMode (state_of (loop nothing_offered ?b))"
    by simp
  from loop_link_loss_mode [OF flaky_boot(1), of nothing_offered] lf af
  have rf: "configMode (state_of (loop nothing_offered ?f))"
    by blast
  have ret: "\<not> isl (loop nothing_offered ?b)" "\<not> isl (loop nothing_offered ?f)"
    by (rule loop_returns, simp add: nothing_offered_def)+
  from blip_boot(1) flaky_boot(1) lb lf rb rf ret show ?thesis
    by simp
qed

theorem loop_link_loss_counterexample:
  "\<not> configMode (boot False flaky_link_device) \<and>
   mqtt_armed (boot False flaky_link_device) \<and>
   \<not> WiFi_connected (boot False flaky_link_device) \<and>
   \<not> isl (loop nothing_offered (boot False flaky_link_device)) \<and>
   configMode (state_of (loop nothing_offered (boot False flaky_link_device)))"
proof -
  let ?f = "boot False flaky_link_device"
  have lf: "\<not> WiFi_connected ?f"
    by (simp add: WiFi_connected_def flaky_boot link_up_twice_def)
  have "configMode (state_of (loop nothing_offered ?f)) \<longleftrightarrow> \<not> wifi_link ?f (wifi_polls ?f + 40 + 2)"
    by (intro loop_link_lost [OF flaky_boot(1) lf]) (simp_all add: flaky_boot link_up_twice_def)
  then have "configMode (state_of (loop nothing_offered ?f))"
    by (simp add: flaky_boot link_up_twice_def)
  moreover have "\<not> isl (loop nothing_offered ?f)"
    by (rule loop_returns) (simp add: nothing_offered_def)
  ultimately show ?thesis
    using flaky_boot(1,4) lf by simp
qed

end
